theory Spec2Isabelle
  imports Main
begin

section \<open>Data model\<close>

text \<open>
  The connection manager of the extension
  (\<^verbatim>\<open>src/connections/DatabricksConnectionManagerVSCode.ts\<close>) and the delete command of
  a cluster tree item (\<^verbatim>\<open>src/vscode/treeviews/clusters/DatabricksCluster.ts\<close>).

  A JavaScript value that may be \<^verbatim>\<open>undefined\<close> is an \<open>option\<close>, with \<open>None\<close> for
  \<^verbatim>\<open>undefined\<close>. A thrown exception is a value of type \<open>error\<close>: \<open>TypeError\<close> is what
  the runtime raises when a property of \<^verbatim>\<open>undefined\<close> is read or written, \<open>Error msg\<close>
  is \<^verbatim>\<open>new Error(msg)\<close>.
\<close>

datatype error = TypeError | Error string

text \<open>
  \<^verbatim>\<open>iDatabricksConnection\<close>, with the fields the manager assembles in
  \<^verbatim>\<open>getDefaultConnectionFromWorkspace\<close>. The class \<^verbatim>\<open>DatabricksConnection\<close> that wraps it is
  not among the sources: \<^verbatim>\<open>new DatabricksConnection(con)\<close> is taken to hold the fields of
  \<^verbatim>\<open>con\<close> as they are, and its method \<^verbatim>\<open>validate()\<close> is a parameter \<open>validate\<close> of every
  function that calls it.
\<close>

record DatabricksConnection =
  displayName :: "string option"
  cloudProvider :: "string option"
  apiRootUrl :: "string option"
  personalAccessToken :: "string option"
  localSyncFolder :: "string option"
  exportFormats :: "string option"
  useCodeCells :: "bool option"
  personalAccessTokenSecure :: "string option"

text \<open>\<^verbatim>\<open>iWorkspaceConfiguration\<close> and \<^verbatim>\<open>iUserWorkspaceConfiguration\<close>, by the fields used.\<close>

record iWorkspaceConfiguration =
  workspaceGuid :: "string option"
  lastActiveConnection :: "string option"

record iUserWorkspaceConfiguration =
  workspaceConfig :: iWorkspaceConfiguration
  connections :: "DatabricksConnection list"

text \<open>
  The settings of VS Code that the manager reads and writes, one field for each key. All
  are at the target \<^verbatim>\<open>Workspace\<close> but the last, \<^verbatim>\<open>databricks.userWorkspaceConfigurations\<close>,
  which is at the target \<^verbatim>\<open>Global\<close>. The fields \<open>default_*\<close> are the keys
  \<^verbatim>\<open>databricks.connection.default.*\<close>. Each value has the type that the source declares
  for it; the two settings that the source tests for \<^verbatim>\<open>undefined\<close> are options, and so are
  the fields of the default block, which the source clears with \<^verbatim>\<open>undefined\<close>.
\<close>

record configuration =
  databricks_workspaceConfiguration :: "iWorkspaceConfiguration option"
  databricks_connections :: "DatabricksConnection list option"
  default_displayName :: "string option"
  default_cloudProvider :: "string option"
  default_apiRootUrl :: "string option"
  default_personalAccessToken :: "string option"
  default_localSyncFolder :: "string option"
  default_databricksConnectJars :: "string option"
  default_pythonInterpreter :: "string option"
  default_port :: "string option"
  default_organizationId :: "string option"
  default_exportFormats :: "string option"
  default_useCodeCells :: "bool option"
  python_dataScience_codeRegularExpression :: "string option"
  databricks_userWorkspaceConfigurations :: "iUserWorkspaceConfiguration list"

text \<open>
  A call \<^verbatim>\<open>vscode.workspace.getConfiguration().update(key, value, target)\<close> returns a
  promise. The manager awaits none of them, so a call only issues the write: the write is
  kept in \<open>pending\<close>, in the order of the calls, with the message that a \<^verbatim>\<open>then\<close> callback
  logs when the promise is fulfilled. The keys of the default block are only ever written
  with \<^verbatim>\<open>undefined\<close>.
\<close>

datatype default_key =
  K_displayName | K_cloudProvider | K_apiRootUrl | K_personalAccessToken | K_localSyncFolder
  | K_databricksConnectJars | K_pythonInterpreter | K_port | K_organizationId
  | K_exportFormats | K_useCodeCells

datatype update =
  Set_workspaceConfiguration "iWorkspaceConfiguration option"
  | Set_connections "DatabricksConnection list option"
  | Clear_default default_key
  | Set_codeRegularExpression "string option"
  | Set_userWorkspaceConfigurations "iUserWorkspaceConfiguration list"

datatype pending_update = Pending update "string option"

text \<open>
  The state: the fields of the manager (\<^verbatim>\<open>this._initialized\<close>, \<^verbatim>\<open>this._connections\<close>,
  \<^verbatim>\<open>this._activeConnection\<close>, \<^verbatim>\<open>this._workspaceConfig\<close>), the settings, the writes issued
  and not yet settled, and what the collaborators have received: the connections passed to
  \<^verbatim>\<open>DatabricksApiService.initialize\<close>, the lines passed to \<^verbatim>\<open>ThisExtension.log\<close> and the
  messages passed to \<^verbatim>\<open>vscode.window.showErrorMessage\<close>, each in the order of the calls.
\<close>

record world =
  this_initialized :: bool
  this_connections :: "DatabricksConnection list"
  this_activeConnection :: "DatabricksConnection option"
  this_workspaceConfig :: "iWorkspaceConfiguration option"
  config :: configuration
  pending :: "pending_update list"
  api_initialize :: "DatabricksConnection option list"
  logged :: "string list"
  shown_errors :: "string list"

text \<open>
  A call either completes normally with a value or throws; it may also never return, which
  is the value \<open>None\<close> of the enclosing \<open>option\<close>.
\<close>

datatype 'a completion = Normal 'a | Throw error

type_synonym 'a run = "('a completion \<times> world) option"

definition andThen :: "'a run \<Rightarrow> ('a \<Rightarrow> world \<Rightarrow> 'b run) \<Rightarrow> 'b run" where
  "andThen m f =
     (case m of
        None \<Rightarrow> None
      | Some (Throw e, w) \<Rightarrow> Some (Throw e, w)
      | Some (Normal a, w) \<Rightarrow> f a w)"

text \<open>
  An \<^verbatim>\<open>async\<close> function returns a promise and never throws to its caller: an exception
  raised in its body rejects the promise.
\<close>

datatype 'a promise = Resolved 'a | Rejected error

definition async :: "'a run \<Rightarrow> 'a promise run" where
  "async m =
     (case m of
        None \<Rightarrow> None
      | Some (Throw e, w) \<Rightarrow> Some (Normal (Rejected e), w)
      | Some (Normal a, w) \<Rightarrow> Some (Normal (Resolved a), w))"

section \<open>Collaborators\<close>

definition log :: "string \<Rightarrow> world \<Rightarrow> world" where
  "log msg w = w\<lparr>logged := logged w @ [msg]\<rparr>"

definition showErrorMessage :: "string \<Rightarrow> world \<Rightarrow> world" where
  "showErrorMessage msg w = w\<lparr>shown_errors := shown_errors w @ [msg]\<rparr>"

definition DatabricksApiService_initialize :: "DatabricksConnection option \<Rightarrow> world \<Rightarrow> world" where
  "DatabricksApiService_initialize con w = w\<lparr>api_initialize := api_initialize w @ [con]\<rparr>"

definition issue :: "update \<Rightarrow> string option \<Rightarrow> world \<Rightarrow> world" where
  "issue u cb w = w\<lparr>pending := pending w @ [Pending u cb]\<rparr>"

text \<open>The decimal numeral of a number, as a template string prints a length.\<close>

fun string_of_nat :: "nat \<Rightarrow> string" where
  "string_of_nat n =
     (if n < 10 then [char_of (48 + n)]
      else string_of_nat (n div 10) @ [char_of (48 + n mod 10)])"

declare string_of_nat.simps [simp del]

text \<open>String concatenation prints \<^verbatim>\<open>undefined\<close> by its name.\<close>

fun str :: "string option \<Rightarrow> string" where
  "str None = ''undefined''"
| "str (Some s) = s"

text \<open>
  Modelled from the spec: \<^verbatim>\<open>Helper.wait\<close> is not among the sources. The spec has the
  accessor poll and sleep with a short fixed delay; the sleep changes nothing of the state.
\<close>

definition Helper_wait :: "nat \<Rightarrow> world \<Rightarrow> world" where
  "Helper_wait ms w = w"

section \<open>The settled settings\<close>

text \<open>
  Modelled from the spec: what VS Code does with an issued write is not among the sources.
  The spec has \<^verbatim>\<open>update(key, value, scope) -> asyncCompletion\<close>, and a store that may
  reject an update. \<open>settle accept\<close> completes the pending writes in the order of their
  issue after the synchronous code has returned: an accepted write changes the setting and
  runs its callback, a rejected one changes nothing.
\<close>

fun clear_default :: "default_key \<Rightarrow> configuration \<Rightarrow> configuration" where
  "clear_default K_displayName c = c\<lparr>default_displayName := None\<rparr>"
| "clear_default K_cloudProvider c = c\<lparr>default_cloudProvider := None\<rparr>"
| "clear_default K_apiRootUrl c = c\<lparr>default_apiRootUrl := None\<rparr>"
| "clear_default K_personalAccessToken c = c\<lparr>default_personalAccessToken := None\<rparr>"
| "clear_default K_localSyncFolder c = c\<lparr>default_localSyncFolder := None\<rparr>"
| "clear_default K_databricksConnectJars c = c\<lparr>default_databricksConnectJars := None\<rparr>"
| "clear_default K_pythonInterpreter c = c\<lparr>default_pythonInterpreter := None\<rparr>"
| "clear_default K_port c = c\<lparr>default_port := None\<rparr>"
| "clear_default K_organizationId c = c\<lparr>default_organizationId := None\<rparr>"
| "clear_default K_exportFormats c = c\<lparr>default_exportFormats := None\<rparr>"
| "clear_default K_useCodeCells c = c\<lparr>default_useCodeCells := None\<rparr>"

fun apply_update :: "update \<Rightarrow> configuration \<Rightarrow> configuration" where
  "apply_update (Set_workspaceConfiguration v) c = c\<lparr>databricks_workspaceConfiguration := v\<rparr>"
| "apply_update (Set_connections v) c = c\<lparr>databricks_connections := v\<rparr>"
| "apply_update (Clear_default k) c = clear_default k c"
| "apply_update (Set_codeRegularExpression v) c = c\<lparr>python_dataScience_codeRegularExpression := v\<rparr>"
| "apply_update (Set_userWorkspaceConfigurations v) c = c\<lparr>databricks_userWorkspaceConfigurations := v\<rparr>"

fun settle_one :: "(update \<Rightarrow> bool) \<Rightarrow> pending_update \<Rightarrow> world \<Rightarrow> world" where
  "settle_one accept (Pending u cb) w =
     (if accept u then
        (let w' = w\<lparr>config := apply_update u (config w)\<rparr>
         in case cb of None \<Rightarrow> w' | Some msg \<Rightarrow> log msg w')
      else w)"

fun settle_all :: "(update \<Rightarrow> bool) \<Rightarrow> pending_update list \<Rightarrow> world \<Rightarrow> world" where
  "settle_all accept [] w = w"
| "settle_all accept (p # ps) w = settle_all accept ps (settle_one accept p w)"

definition settle :: "(update \<Rightarrow> bool) \<Rightarrow> world \<Rightarrow> world" where
  "settle accept w = settle_all accept (pending w) (w\<lparr>pending := []\<rparr>)"

section \<open>The connection manager\<close>

text \<open>
  \<^verbatim>\<open>get Connections\<close>: \<^verbatim>\<open>while (!this._initialized) { Helper.wait(500); }\<close>, then the list.
  Nothing in the loop sets the flag, so the getter returns only on an initialized manager.
\<close>

partial_function (option) Connections :: "world \<Rightarrow> (DatabricksConnection list \<times> world) option" where
  "Connections w =
     (if \<not> this_initialized w then Connections (Helper_wait 500 w)
      else Some (this_connections w, w))"

definition get_Connections :: "world \<Rightarrow> DatabricksConnection list run" where
  "get_Connections w = map_option (\<lambda>(cs, w'). (Normal cs, w')) (Connections w)"

text \<open>
  \<^verbatim>\<open>getConnectionsFromWorkspace\<close>: the entries of \<^verbatim>\<open>databricks.connections\<close> that
  validate, in their order; none when the setting is undefined.
\<close>

definition getConnectionsFromWorkspace ::
  "(DatabricksConnection \<Rightarrow> bool) \<Rightarrow> world \<Rightarrow> DatabricksConnection list" where
  "getConnectionsFromWorkspace validate w =
     (case databricks_connections (config w) of
        None \<Rightarrow> []
      | Some cons \<Rightarrow> filter validate cons)"

text \<open>
  \<^verbatim>\<open>getDefaultConnectionFromWorkspace\<close>: one connection assembled from the settings
  \<^verbatim>\<open>databricks.connection.default.*\<close>; \<^verbatim>\<open>null\<close> (here \<open>None\<close>) when its name is undefined or
  empty or when it does not validate.
\<close>

definition getDefaultConnectionFromWorkspace ::
  "(DatabricksConnection \<Rightarrow> bool) \<Rightarrow> world \<Rightarrow> DatabricksConnection option" where
  "getDefaultConnectionFromWorkspace validate w =
     (let defaultCon =
            \<lparr>displayName = default_displayName (config w),
             cloudProvider = default_cloudProvider (config w),
             apiRootUrl = default_apiRootUrl (config w),
             personalAccessToken = default_personalAccessToken (config w),
             localSyncFolder = default_localSyncFolder (config w),
             exportFormats = default_exportFormats (config w),
             useCodeCells = default_useCodeCells (config w),
             personalAccessTokenSecure = None\<rparr>
      in if displayName defaultCon = None \<or> displayName defaultCon = Some [] \<or> \<not> validate defaultCon
         then None
         else Some defaultCon)"

definition corruption_message :: string where
  "corruption_message =
     ''There is an error in your User Workspace Configurations ('databricks.userWorkspaceConfigurations'). Please make sure all 'workspaceGuid' are unique!''"

text \<open>
  \<^verbatim>\<open>get CurrentUserWorkspaceConfiguration\<close>: the entry of the global list whose guid is the
  guid of this workspace; \<^verbatim>\<open>undefined\<close> when there is none, an error when there are several.
  The callback of \<^verbatim>\<open>filter\<close> reads \<^verbatim>\<open>this._workspaceConfig.workspaceGuid\<close> once for every
  entry, which throws on the first entry when \<^verbatim>\<open>this._workspaceConfig\<close> is undefined.
\<close>

definition CurrentUserWorkspaceConfiguration ::
  "world \<Rightarrow> iUserWorkspaceConfiguration option completion" where
  "CurrentUserWorkspaceConfiguration w =
     (let allUserWorkspaceConfigs = databricks_userWorkspaceConfigurations (config w)
      in case this_workspaceConfig w of
           None \<Rightarrow> (if allUserWorkspaceConfigs = [] then Normal None else Throw TypeError)
         | Some wc \<Rightarrow>
             (case filter (\<lambda>x. workspaceGuid (workspaceConfig x) = workspaceGuid wc)
                     allUserWorkspaceConfigs of
                [] \<Rightarrow> Normal None
              | [x] \<Rightarrow> Normal (Some x)
              | _ \<Rightarrow> Throw (Error corruption_message)))"

definition getConnectionsFromGlobalConfig ::
  "(DatabricksConnection \<Rightarrow> bool) \<Rightarrow> world \<Rightarrow> DatabricksConnection list completion" where
  "getConnectionsFromGlobalConfig validate w =
     (case CurrentUserWorkspaceConfiguration w of
        Throw e \<Rightarrow> Throw e
      | Normal None \<Rightarrow> Normal []
      | Normal (Some currentUserWorkspaceConfig) \<Rightarrow>
          Normal (filter validate (connections currentUserWorkspaceConfig)))"

definition cleanConnectionsFromConfig :: "world \<Rightarrow> world" where
  "cleanConnectionsFromConfig w = issue (Set_connections None) None w"

definition cleanDefaultConnectionFromConfig :: "world \<Rightarrow> world" where
  "cleanDefaultConnectionFromConfig w =
     (let w1 = issue (Clear_default K_displayName) None w;
          w2 = issue (Clear_default K_cloudProvider) None w1;
          w3 = issue (Clear_default K_apiRootUrl) None w2;
          w4 = issue (Clear_default K_personalAccessToken) None w3;
          w5 = issue (Clear_default K_localSyncFolder) None w4;
          w6 = issue (Clear_default K_databricksConnectJars) None w5;
          w7 = issue (Clear_default K_pythonInterpreter) None w6;
          w8 = issue (Clear_default K_port) None w7;
          w9 = issue (Clear_default K_organizationId) None w8;
          w10 = issue (Clear_default K_exportFormats) None w9
      in issue (Clear_default K_useCodeCells) None w10)"

definition updateWorkspaceConfig :: "world \<Rightarrow> world" where
  "updateWorkspaceConfig w = issue (Set_workspaceConfiguration (this_workspaceConfig w)) None w"

text \<open>
  \<^verbatim>\<open>get CurrentWorkspaceConfiguration\<close>: the object literal of \<^verbatim>\<open>this._workspaceConfig\<close> and
  \<^verbatim>\<open>this.Connections\<close>. The interface \<^verbatim>\<open>iUserWorkspaceConfiguration\<close> has no entry without a
  \<^verbatim>\<open>workspaceConfig\<close>, so on a manager whose \<^verbatim>\<open>_workspaceConfig\<close> is undefined the getter is
  given the \<open>TypeError\<close> that the first read of \<^verbatim>\<open>this._workspaceConfig.workspaceGuid\<close> raises
  in its only caller. \<^verbatim>\<open>loadConnections\<close> has thrown before it reaches that caller in such
  a state.
\<close>

definition CurrentWorkspaceConfiguration :: "world \<Rightarrow> iUserWorkspaceConfiguration run" where
  "CurrentWorkspaceConfiguration w =
     andThen (get_Connections w) (\<lambda>cs w'.
       case this_workspaceConfig w' of
         None \<Rightarrow> Some (Throw TypeError, w')
       | Some wc \<Rightarrow> Some (Normal \<lparr>workspaceConfig = wc, connections = cs\<rparr>, w'))"

text \<open>
  \<^verbatim>\<open>updateUserWorkspaceConfig\<close>. The getter above returns an object literal, never
  \<^verbatim>\<open>undefined\<close>, so of the two branches of the source only the first runs: the entries of
  the other workspaces, then the entry of this one. The write to the global setting is
  issued, a callback is attached to it, and the writes that clear the workspace settings
  are issued right after it: nothing awaits the first write. The guid that the filter
  compares with is that of \<^verbatim>\<open>this._workspaceConfig\<close>, which the getter has put into the
  entry.
\<close>

definition updated_message :: string where
  "updated_message = ''User setting 'databricks.userWorkspaceConfigurations' was updated!''"

definition updateUserWorkspaceConfig :: "world \<Rightarrow> unit run" where
  "updateUserWorkspaceConfig w =
     (let w1 = log ''Updating user setting 'databricks.userWorkspaceConfigurations' ...'' w;
          AllUserWorkspaceConfigurations = databricks_userWorkspaceConfigurations (config w1)
      in andThen (CurrentWorkspaceConfiguration w1) (\<lambda>currentGlobalWorkspaceConfig w2.
         andThen (CurrentWorkspaceConfiguration w2) (\<lambda>pushed w3.
           let updatedGlobalWorkspaceConfigs =
                 filter (\<lambda>x. workspaceGuid (workspaceConfig x)
                              \<noteq> workspaceGuid (workspaceConfig currentGlobalWorkspaceConfig))
                   AllUserWorkspaceConfigurations @ [pushed];
               w4 = issue (Set_userWorkspaceConfigurations updatedGlobalWorkspaceConfigs)
                      (Some updated_message) w3;
               w5 = log ''Removing workspace settings 'databricks.*' as they have been persisted in the user settings!'' w4;
               w6 = cleanConnectionsFromConfig w5
           in Some (Normal (), cleanDefaultConnectionFromConfig w6))))"

text \<open>
  \<^verbatim>\<open>loadConnections\<close>. \<open>newGuid\<close> is the value that \<^verbatim>\<open>Helper.newGuid()\<close> returns in this
  call. When \<^verbatim>\<open>this._workspaceConfig\<close> is undefined, the assignment to its property
  \<^verbatim>\<open>workspaceGuid\<close> throws.
\<close>

definition ensureWorkspaceGuid :: "string \<Rightarrow> world \<Rightarrow> unit run" where
  "ensureWorkspaceGuid newGuid w =
     (case this_workspaceConfig w of
        None \<Rightarrow> Some (Throw TypeError, log ''Creating Workspace Configuration ...'' w)
      | Some wc \<Rightarrow>
          (case workspaceGuid wc of
             None \<Rightarrow>
               Some (Normal (),
                 (log ''Creating Workspace Configuration ...'' w)
                   \<lparr>this_workspaceConfig := Some (wc\<lparr>workspaceGuid := Some newGuid\<rparr>)\<rparr>)
           | Some _ \<Rightarrow> Some (Normal (), w)))"

definition mergeConnections ::
  "DatabricksConnection option \<Rightarrow> DatabricksConnection list \<Rightarrow> world \<Rightarrow> world" where
  "mergeConnections defaultConnectionFromWorkspace connectionsFromGlobalConfig w =
     (let w1 = (case defaultConnectionFromWorkspace of
                  None \<Rightarrow> w
                | Some d \<Rightarrow>
                    if displayName d \<notin> set (map displayName (this_connections w))
                    then w\<lparr>this_connections := this_connections w @ [d]\<rparr>
                    else w);
          newConnectionsFromWorkspace =
            filter (\<lambda>x. displayName x \<notin> set (map displayName (this_connections w1)))
              connectionsFromGlobalConfig
      in w1\<lparr>this_connections := this_connections w1 @ newConnectionsFromWorkspace\<rparr>)"

definition loadConnections :: "(DatabricksConnection \<Rightarrow> bool) \<Rightarrow> string \<Rightarrow> world \<Rightarrow> unit run" where
  "loadConnections validate newGuid w =
     (let w1 = log ''Getting current Workspace Configuration (databricks.workspaceConfiguration) ...'' w;
          w2 = w1\<lparr>this_workspaceConfig := databricks_workspaceConfiguration (config w1)\<rparr>
      in andThen (ensureWorkspaceGuid newGuid w2) (\<lambda>_ w3.
           let w4 = log ''Loading connections array from Workspace (databricks.connections)...'' w3;
               w5 = w4\<lparr>this_connections := getConnectionsFromWorkspace validate w4\<rparr>;
               w6 = log (string_of_nat (length (this_connections w5))
                           @ '' connection(s) loaded from Workspace!'') w5;
               w7 = log ''Loading default connection from Workspace/UserSettings (databricks.connection.default.*) ...'' w6;
               defaultConnectionFromWorkspace = getDefaultConnectionFromWorkspace validate w7;
               w8 = (if defaultConnectionFromWorkspace \<noteq> None
                     then log ''Default connection loaded from Workspace/UserSettings!'' w7
                     else log ''No Default connection found in Workspace/UserSettings!'' w7);
               w9 = log ''Loading connections array from UserSetting (databricks.userWorkspaceConfigurations)...'' w8
           in case getConnectionsFromGlobalConfig validate w9 of
                Throw e \<Rightarrow> Some (Throw e, w9)
              | Normal connectionsFromGlobalConfig \<Rightarrow>
                  (let w10 = log (string_of_nat (length connectionsFromGlobalConfig)
                                    @ '' connection(s) loaded from UserSetting!'') w9;
                       w11 = mergeConnections defaultConnectionFromWorkspace
                               connectionsFromGlobalConfig w10;
                       w12 = w11\<lparr>this_initialized := True\<rparr>
                   in updateUserWorkspaceConfig w12)))"

text \<open>
  The value written to \<^verbatim>\<open>python.dataScience.codeRegularExpression\<close> for a connection that
  uses code cells; \<open>CHR 0x5C\<close> is the backslash.
\<close>

definition codeRegularExpression :: string where
  "codeRegularExpression =
     ''^(# COMMAND ----------|#'' @ CHR 0x5C # ''s*%%|#'' @ CHR 0x5C # ''s*'' @ CHR 0x5C
       # ''<codecell'' @ CHR 0x5C # ''>|#'' @ CHR 0x5C # ''s*In'' @ CHR 0x5C # ''[''
       @ CHR 0x5C # ''d*?'' @ CHR 0x5C # '']|#'' @ CHR 0x5C # ''s*In'' @ CHR 0x5C # ''[ ''
       @ CHR 0x5C # '']'' @ '')''"

definition not_found_message :: "string option \<Rightarrow> string" where
  "not_found_message displayName' =
     ''Connection with name  '' @ CHR 0x27 # str displayName' @ CHR 0x27 # '' could not be found!''"

text \<open>
  The body of \<^verbatim>\<open>activateConnection\<close>. The parameter is declared a string, and the
  constructor passes \<^verbatim>\<open>lastActiveConnection\<close>, which may be undefined: the name is an
  \<open>option\<close>. \<^verbatim>\<open>this._activeConnection\<close> is assigned before \<^verbatim>\<open>this._workspaceConfig\<close> is
  written to.
\<close>

definition activateConnection_body :: "string option \<Rightarrow> world \<Rightarrow> DatabricksConnection run" where
  "activateConnection_body displayName' w =
     andThen (get_Connections w) (\<lambda>cs w0.
       case filter (\<lambda>x. displayName x = displayName') cs of
         [c] \<Rightarrow>
           (let w1 = w0\<lparr>this_activeConnection := Some c\<rparr>
            in case this_workspaceConfig w1 of
                 None \<Rightarrow> Some (Throw TypeError, w1)
               | Some wc \<Rightarrow>
                   (let w2 = w1\<lparr>this_workspaceConfig :=
                                  Some (wc\<lparr>lastActiveConnection := displayName'\<rparr>)\<rparr>;
                        w3 = DatabricksApiService_initialize (this_activeConnection w2) w2;
                        w4 = updateWorkspaceConfig w3;
                        w5 = (if useCodeCells c = Some True
                              then issue (Set_codeRegularExpression (Some codeRegularExpression)) None w4
                              else issue (Set_codeRegularExpression None) None w4)
                    in Some (Normal c, w5)))
       | _ \<Rightarrow>
           (let msg = not_found_message displayName'
            in Some (Throw (Error msg), log msg w0)))"

text \<open>\<^verbatim>\<open>async activateConnection(displayName)\<close>.\<close>

definition activateConnection :: "string option \<Rightarrow> world \<Rightarrow> DatabricksConnection promise run" where
  "activateConnection displayName' w = async (activateConnection_body displayName' w)"

definition no_connections_message :: string where
  "no_connections_message =
     ''No connections have been configured yet! Please add a connection via the VSCode Settings -> Databricks before proceeding!''"

text \<open>
  The constructor. Its \<^verbatim>\<open>try\<close> statement calls \<^verbatim>\<open>activateConnection\<close> without awaiting the
  promise; the \<^verbatim>\<open>catch\<close> block runs when the call itself throws.
\<close>

definition tryActivate :: "world \<Rightarrow> unit run" where
  "tryActivate w =
     (case this_workspaceConfig w of
        None \<Rightarrow> Some (Throw TypeError, w)
      | Some wc \<Rightarrow>
          (case activateConnection (lastActiveConnection wc) w of
             None \<Rightarrow> None
           | Some (Normal p, w1) \<Rightarrow> Some (Normal (), w1)
           | Some (Throw error, w1) \<Rightarrow>
               (case this_workspaceConfig w1 of
                  None \<Rightarrow> Some (Throw TypeError, w1)
                | Some wc1 \<Rightarrow>
                    (let w2 = log (''Could not activate Connection '' @ CHR 0x27
                                     # str (lastActiveConnection wc1) @ CHR 0x27 # '' ...'') w1;
                         w3 = log ''Activating first available connection instead ...'' w2
                     in andThen (get_Connections w3) (\<lambda>cs w4.
                          case cs of
                            [] \<Rightarrow> Some (Throw TypeError, w4)
                          | c # _ \<Rightarrow>
                              andThen (activateConnection (displayName c) w4)
                                (\<lambda>p w5. Some (Normal (), w5)))))))"

definition constructor :: "(DatabricksConnection \<Rightarrow> bool) \<Rightarrow> string \<Rightarrow> world \<Rightarrow> unit run" where
  "constructor validate newGuid w =
     (let w0 = w\<lparr>this_initialized := False\<rparr>
      in andThen (loadConnections validate newGuid w0) (\<lambda>_ w1.
         andThen (get_Connections w1) (\<lambda>cs w2.
           case cs of
             [] \<Rightarrow>
               Some (Normal (),
                 showErrorMessage no_connections_message (log no_connections_message w2))
           | c # _ \<Rightarrow>
               (case this_workspaceConfig w2 of
                  None \<Rightarrow> Some (Throw TypeError, w2)
                | Some wc \<Rightarrow>
                    (let w3 = (if lastActiveConnection wc = None
                               then w2\<lparr>this_workspaceConfig :=
                                         Some (wc\<lparr>lastActiveConnection := displayName c\<rparr>)\<rparr>
                               else w2)
                     in tryActivate w3)))))"

section \<open>The delete command of a cluster\<close>

text \<open>
  A cluster tree item, by the two fields that \<^verbatim>\<open>delete\<close> reads, and what the command
  leaves behind: the cluster ids passed to \<^verbatim>\<open>DatabricksApiService.deleteCluster\<close>, the lines
  logged and the commands scheduled with \<^verbatim>\<open>setTimeout\<close>.
\<close>

record DatabricksCluster =
  name :: string
  cluster_id :: string

record cluster_effects =
  deleteCluster_calls :: "string list"
  cluster_logged :: "string list"
  scheduled :: "(string \<times> nat) list"

text \<open>
  \<^verbatim>\<open>async delete()\<close>. \<open>confirm\<close> is what the input box returns: the text typed, or
  \<^verbatim>\<open>undefined\<close> when the box is cancelled. \<open>failure\<close> is the error with which the awaited
  call of the API rejects, if it does.
\<close>

definition abort_message :: "DatabricksCluster \<Rightarrow> string" where
  "abort_message this = ''Deletion of Cluster '' @ CHR 0x27 # name this @ CHR 0x27 # '' aborted!''"

definition DatabricksCluster_delete ::
  "DatabricksCluster \<Rightarrow> string option \<Rightarrow> error option \<Rightarrow> cluster_effects
     \<Rightarrow> unit promise \<times> cluster_effects" where
  "DatabricksCluster_delete this confirm failure e =
     (if confirm = None \<or> confirm = Some [] \<or> confirm \<noteq> Some (name this) then
        (Resolved (), e\<lparr>cluster_logged := cluster_logged e @ [abort_message this]\<rparr>)
      else
        (let e1 = e\<lparr>deleteCluster_calls := deleteCluster_calls e @ [cluster_id this]\<rparr>
         in case failure of
              Some err \<Rightarrow> (Rejected err, e1)
            | None \<Rightarrow>
                (Resolved (), e1\<lparr>scheduled := scheduled e1 @ [(''databricksClusters.refresh'', 1000)]\<rparr>)))"

section \<open>Vocabulary of the statements\<close>

text \<open>
  The guid that \<^verbatim>\<open>loadConnections\<close> works with: the stored one, or the new one when none
  is stored.
\<close>

definition effectiveGuid :: "string \<Rightarrow> iWorkspaceConfiguration \<Rightarrow> string option" where
  "effectiveGuid newGuid wc = (case workspaceGuid wc of None \<Rightarrow> Some newGuid | Some g \<Rightarrow> Some g)"

text \<open>The entries of the global list with a given guid, and the other ones.\<close>

definition globalEntries :: "string option \<Rightarrow> world \<Rightarrow> iUserWorkspaceConfiguration list" where
  "globalEntries guid w =
     filter (\<lambda>x. workspaceGuid (workspaceConfig x) = guid)
       (databricks_userWorkspaceConfigurations (config w))"

definition otherEntries :: "string option \<Rightarrow> world \<Rightarrow> iUserWorkspaceConfiguration list" where
  "otherEntries guid w =
     filter (\<lambda>x. workspaceGuid (workspaceConfig x) \<noteq> guid)
       (databricks_userWorkspaceConfigurations (config w))"

text \<open>
  The list \<open>L3\<close> of the specification: the valid connections of the global entry of a guid,
  none when no entry has the guid. (With several entries the load throws.)
\<close>

definition globalConnections ::
  "(DatabricksConnection \<Rightarrow> bool) \<Rightarrow> string option \<Rightarrow> world \<Rightarrow> DatabricksConnection list" where
  "globalConnections validate guid w =
     (case globalEntries guid w of [] \<Rightarrow> [] | e # _ \<Rightarrow> filter validate (connections e))"

text \<open>The default connection \<open>D\<close> as a list: itself when its name is not in \<open>L1\<close>.\<close>

definition defaultIfNew ::
  "DatabricksConnection option \<Rightarrow> DatabricksConnection list \<Rightarrow> DatabricksConnection list" where
  "defaultIfNew D L1 =
     (case D of
        None \<Rightarrow> []
      | Some d \<Rightarrow> if displayName d \<in> set (map displayName L1) then [] else [d])"

definition canonical ::
  "(DatabricksConnection \<Rightarrow> bool) \<Rightarrow> string option \<Rightarrow> world \<Rightarrow> DatabricksConnection list" where
  "canonical validate guid w =
     (let L1 = getConnectionsFromWorkspace validate w;
          LD = L1 @ defaultIfNew (getDefaultConnectionFromWorkspace validate w) L1
      in LD @ filter (\<lambda>x. displayName x \<notin> set (map displayName LD))
                (globalConnections validate guid w))"

text \<open>The writes that clear the workspace settings, in the order of their issue.\<close>

definition clearingWrites :: "pending_update list" where
  "clearingWrites =
     [Pending (Set_connections None) None,
      Pending (Clear_default K_displayName) None,
      Pending (Clear_default K_cloudProvider) None,
      Pending (Clear_default K_apiRootUrl) None,
      Pending (Clear_default K_personalAccessToken) None,
      Pending (Clear_default K_localSyncFolder) None,
      Pending (Clear_default K_databricksConnectJars) None,
      Pending (Clear_default K_pythonInterpreter) None,
      Pending (Clear_default K_port) None,
      Pending (Clear_default K_organizationId) None,
      Pending (Clear_default K_exportFormats) None,
      Pending (Clear_default K_useCodeCells) None]"

text \<open>What a run leaves behind, when it returns normally.\<close>

definition connectionsAfter :: "'a run \<Rightarrow> DatabricksConnection list option" where
  "connectionsAfter r =
     (case r of Some (Normal _, w) \<Rightarrow> Some (this_connections w) | _ \<Rightarrow> None)"

definition activeAfter :: "'a run \<Rightarrow> DatabricksConnection option option" where
  "activeAfter r =
     (case r of Some (Normal _, w) \<Rightarrow> Some (this_activeConnection w) | _ \<Rightarrow> None)"

definition pendingAfter :: "'a run \<Rightarrow> pending_update list option" where
  "pendingAfter r = (case r of Some (Normal _, w) \<Rightarrow> Some (pending w) | _ \<Rightarrow> None)"

text \<open>The error of a run that throws.\<close>

definition thrownBy :: "'a run \<Rightarrow> error option" where
  "thrownBy r = (case r of Some (Throw e, _) \<Rightarrow> Some e | _ \<Rightarrow> None)"

text \<open>
  Two scenarios. \<open>loadAndSettle\<close>: a load that returns, then the settling of the writes it
  has issued; the result is the settings afterwards. \<open>reload\<close>: the same, then a second
  load, in which \<^verbatim>\<open>Helper.newGuid()\<close> would return \<open>newGuid2\<close>.
\<close>

definition loadAndSettle ::
  "(DatabricksConnection \<Rightarrow> bool) \<Rightarrow> string \<Rightarrow> (update \<Rightarrow> bool) \<Rightarrow> world \<Rightarrow> configuration option" where
  "loadAndSettle validate newGuid accept w =
     (case loadConnections validate newGuid w of
        Some (Normal _, w1) \<Rightarrow> Some (config (settle accept w1))
      | _ \<Rightarrow> None)"

definition reload ::
  "(DatabricksConnection \<Rightarrow> bool) \<Rightarrow> string \<Rightarrow> string \<Rightarrow> (update \<Rightarrow> bool) \<Rightarrow> world \<Rightarrow> unit run" where
  "reload validate newGuid1 newGuid2 accept w =
     (case loadConnections validate newGuid1 w of
        Some (Normal _, w1) \<Rightarrow> loadConnections validate newGuid2 (settle accept w1)
      | r \<Rightarrow> r)"

definition acceptAll :: "update \<Rightarrow> bool" where
  "acceptAll u = True"

fun rejectGlobal :: "update \<Rightarrow> bool" where
  "rejectGlobal (Set_userWorkspaceConfigurations v) = False"
| "rejectGlobal u = True"

section \<open>Concrete inputs\<close>

text \<open>
  Modelled from the spec: \<^verbatim>\<open>DatabricksConnection.validate\<close> is not among the sources. The
  spec has a record valid iff its displayName is non-empty and its apiRootUrl and
  credential are present. The theorems hold for every \<open>validate\<close>; this one is used on the
  concrete inputs.
\<close>

definition validate_spec :: "DatabricksConnection \<Rightarrow> bool" where
  "validate_spec c =
     (displayName c \<noteq> None \<and> displayName c \<noteq> Some [] \<and> apiRootUrl c \<noteq> None
      \<and> personalAccessToken c \<noteq> None)"

definition mkConnection :: "string \<Rightarrow> string \<Rightarrow> DatabricksConnection" where
  "mkConnection n url =
     \<lparr>displayName = Some n, cloudProvider = Some ''Azure'', apiRootUrl = Some url,
      personalAccessToken = Some ''token'', localSyncFolder = None, exportFormats = None,
      useCodeCells = None, personalAccessTokenSecure = None\<rparr>"

definition conA :: DatabricksConnection where
  "conA = mkConnection ''A'' ''https://local.example''"

definition conA_other :: DatabricksConnection where
  "conA_other = mkConnection ''A'' ''https://other.example''"

definition conA_global :: DatabricksConnection where
  "conA_global = mkConnection ''A'' ''https://global.example''"

definition conB :: DatabricksConnection where
  "conB = mkConnection ''B'' ''https://default.example''"

definition conC :: DatabricksConnection where
  "conC = mkConnection ''C'' ''https://global.example''"

definition wcGuid :: iWorkspaceConfiguration where
  "wcGuid = \<lparr>workspaceGuid = Some ''guid-1'', lastActiveConnection = None\<rparr>"

definition wcNoGuid :: iWorkspaceConfiguration where
  "wcNoGuid = \<lparr>workspaceGuid = None, lastActiveConnection = None\<rparr>"

definition wcGone :: iWorkspaceConfiguration where
  "wcGone = \<lparr>workspaceGuid = Some ''guid-1'', lastActiveConnection = Some ''gone''\<rparr>"

definition emptyConfig :: configuration where
  "emptyConfig =
     \<lparr>databricks_workspaceConfiguration = None, databricks_connections = None,
      default_displayName = None, default_cloudProvider = None, default_apiRootUrl = None,
      default_personalAccessToken = None, default_localSyncFolder = None,
      default_databricksConnectJars = None, default_pythonInterpreter = None,
      default_port = None, default_organizationId = None, default_exportFormats = None,
      default_useCodeCells = None, python_dataScience_codeRegularExpression = None,
      databricks_userWorkspaceConfigurations = []\<rparr>"

text \<open>A manager before its construction, over given settings.\<close>

definition freshWorld :: "configuration \<Rightarrow> world" where
  "freshWorld c =
     \<lparr>this_initialized = False, this_connections = [], this_activeConnection = None,
      this_workspaceConfig = None, config = c, pending = [], api_initialize = [],
      logged = [], shown_errors = []\<rparr>"

text \<open>
  Settings with the guid \<open>guid-1\<close>, the connection \<open>A\<close> in the workspace list, the
  connection \<open>B\<close> in the default block, and a global entry of this workspace with another
  connection named \<open>A\<close> and the connection \<open>C\<close>.
\<close>

definition threeSources :: configuration where
  "threeSources =
     emptyConfig
       \<lparr>databricks_workspaceConfiguration := Some wcGuid,
        databricks_connections := Some [conA],
        default_displayName := Some ''B'', default_cloudProvider := Some ''Azure'',
        default_apiRootUrl := Some ''https://default.example'',
        default_personalAccessToken := Some ''token'',
        databricks_userWorkspaceConfigurations :=
          [\<lparr>workspaceConfig = wcGuid, connections = [conA_global, conC]\<rparr>]\<rparr>"

text \<open>Two different valid records of the same name in the workspace list.\<close>

definition sameNameTwice :: configuration where
  "sameNameTwice =
     emptyConfig
       \<lparr>databricks_workspaceConfiguration := Some wcGuid,
        databricks_connections := Some [conA, conA_other]\<rparr>"

text \<open>One connection in the workspace list; the guid stored, not stored, and no record at all.\<close>

definition localOnly :: configuration where
  "localOnly =
     emptyConfig
       \<lparr>databricks_workspaceConfiguration := Some wcGuid,
        databricks_connections := Some [conA]\<rparr>"

definition localOnlyNoGuid :: configuration where
  "localOnlyNoGuid =
     emptyConfig
       \<lparr>databricks_workspaceConfiguration := Some wcNoGuid,
        databricks_connections := Some [conA]\<rparr>"

definition localOnlyNoRecord :: configuration where
  "localOnlyNoRecord = emptyConfig\<lparr>databricks_connections := Some [conA]\<rparr>"

text \<open>Two global entries with the guid of this workspace.\<close>

definition duplicateGuid :: configuration where
  "duplicateGuid =
     localOnly
       \<lparr>databricks_userWorkspaceConfigurations :=
          [\<lparr>workspaceConfig = wcGuid, connections = [conC]\<rparr>,
           \<lparr>workspaceConfig = wcGuid, connections = []\<rparr>]\<rparr>"

text \<open>The last active connection recorded is one that no longer exists.\<close>

definition lastActiveGone :: configuration where
  "lastActiveGone = localOnly\<lparr>databricks_workspaceConfiguration := Some wcGone\<rparr>"

text \<open>A loaded manager with the connections \<open>A\<close> and \<open>B\<close> and none active.\<close>

definition loadedWorld :: world where
  "loadedWorld =
     \<lparr>this_initialized = True, this_connections = [conA, conB], this_activeConnection = None,
      this_workspaceConfig = Some wcGuid, config = localOnly, pending = [],
      api_initialize = [], logged = [], shown_errors = []\<rparr>"

definition noEffects :: cluster_effects where
  "noEffects = \<lparr>deleteCluster_calls = [], cluster_logged = [], scheduled = []\<rparr>"

definition namedCluster :: DatabricksCluster where
  "namedCluster = \<lparr>name = ''etl'', cluster_id = ''0923-164208-meows279''\<rparr>"

definition unnamedCluster :: DatabricksCluster where
  "unnamedCluster = \<lparr>name = [], cluster_id = ''0923-164208-meows279''\<rparr>"

section \<open>The accessor\<close>

lemma Connections_initialized:
  "this_initialized w \<Longrightarrow> Connections w = Some (this_connections w, w)"
  by (subst Connections.simps) simp

lemma Connections_Some_initialized: "Connections w = Some y \<Longrightarrow> this_initialized w"
  apply (erule Connections.raw_induct [rotated])
  apply (auto simp: Helper_wait_def split: if_splits)
  done

text \<open>The getter returns exactly on an initialized manager; otherwise it never returns.\<close>

lemma Connections_eq [code]:
  "Connections w = (if this_initialized w then Some (this_connections w, w) else None)"
proof (cases "this_initialized w")
  case True
  then show ?thesis by (simp add: Connections_initialized)
next
  case False
  then have "Connections w = None"
    using Connections_Some_initialized [of w] by (cases "Connections w") auto
  with False show ?thesis by simp
qed

section \<open>Frame lemmas\<close>

lemma log_sel [simp]:
  "this_initialized (log m w) = this_initialized w"
  "this_connections (log m w) = this_connections w"
  "this_activeConnection (log m w) = this_activeConnection w"
  "this_workspaceConfig (log m w) = this_workspaceConfig w"
  "config (log m w) = config w"
  "pending (log m w) = pending w"
  "api_initialize (log m w) = api_initialize w"
  "shown_errors (log m w) = shown_errors w"
  by (simp_all add: log_def)

lemma getConnectionsFromWorkspace_cong:
  "config w = config w' \<Longrightarrow> getConnectionsFromWorkspace v w = getConnectionsFromWorkspace v w'"
  by (simp add: getConnectionsFromWorkspace_def)

lemma getDefaultConnectionFromWorkspace_cong:
  "config w = config w' \<Longrightarrow>
     getDefaultConnectionFromWorkspace v w = getDefaultConnectionFromWorkspace v w'"
  by (simp add: getDefaultConnectionFromWorkspace_def)

lemma globalEntries_cong: "config w = config w' \<Longrightarrow> globalEntries g w = globalEntries g w'"
  by (simp add: globalEntries_def)

lemma otherEntries_cong: "config w = config w' \<Longrightarrow> otherEntries g w = otherEntries g w'"
  by (simp add: otherEntries_def)

lemma globalConnections_cong:
  "config w = config w' \<Longrightarrow> globalConnections v g w = globalConnections v g w'"
  by (simp add: globalConnections_def globalEntries_def)

lemma mergeConnections_connections:
  "this_connections (mergeConnections D G w)
     = this_connections w @ defaultIfNew D (this_connections w)
       @ filter (\<lambda>x. displayName x
                    \<notin> set (map displayName (this_connections w @ defaultIfNew D (this_connections w)))) G"
proof (cases D)
  case None
  then show ?thesis by (simp add: mergeConnections_def defaultIfNew_def)
next
  case (Some d)
  then show ?thesis
    by (cases "displayName d \<in> set (map displayName (this_connections w))")
       (simp_all add: mergeConnections_def defaultIfNew_def)
qed

lemma mergeConnections_others:
  "this_initialized (mergeConnections D G w) = this_initialized w"
  "this_workspaceConfig (mergeConnections D G w) = this_workspaceConfig w"
  "this_activeConnection (mergeConnections D G w) = this_activeConnection w"
  "config (mergeConnections D G w) = config w"
  "pending (mergeConnections D G w) = pending w"
  "api_initialize (mergeConnections D G w) = api_initialize w"
  "shown_errors (mergeConnections D G w) = shown_errors w"
  "logged (mergeConnections D G w) = logged w"
  by (simp_all add: mergeConnections_def Let_def split: option.splits)

section \<open>The steps of the load\<close>

lemma updateUserWorkspaceConfig_result:
  assumes "this_initialized w" and "this_workspaceConfig w = Some wc"
  shows "\<exists>w'. updateUserWorkspaceConfig w = Some (Normal (), w')
     \<and> this_connections w' = this_connections w
     \<and> this_initialized w'
     \<and> this_workspaceConfig w' = Some wc
     \<and> this_activeConnection w' = this_activeConnection w
     \<and> api_initialize w' = api_initialize w
     \<and> shown_errors w' = shown_errors w
     \<and> config w' = config w
     \<and> pending w' = pending w
          @ Pending (Set_userWorkspaceConfigurations
               (otherEntries (workspaceGuid wc) w
                  @ [\<lparr>workspaceConfig = wc, connections = this_connections w\<rparr>]))
               (Some updated_message)
          # clearingWrites"
  using assms
  by (simp add: updateUserWorkspaceConfig_def CurrentWorkspaceConfiguration_def andThen_def
      get_Connections_def Connections_initialized log_def issue_def otherEntries_def
      cleanConnectionsFromConfig_def cleanDefaultConnectionFromConfig_def clearingWrites_def
      updated_message_def)


lemma getConnectionsFromGlobalConfig_le1:
  assumes "this_workspaceConfig w = Some wc"
    and "length (globalEntries (workspaceGuid wc) w) \<le> 1"
  shows "getConnectionsFromGlobalConfig validate w
           = Normal (globalConnections validate (workspaceGuid wc) w)"
proof (cases "globalEntries (workspaceGuid wc) w")
  case Nil
  with assms(1) show ?thesis
    by (simp add: getConnectionsFromGlobalConfig_def CurrentUserWorkspaceConfiguration_def
        globalConnections_def globalEntries_def)
next
  case (Cons e es)
  with assms(2) have "es = []" by simp
  with Cons assms(1) show ?thesis
    by (simp add: getConnectionsFromGlobalConfig_def CurrentUserWorkspaceConfiguration_def
        globalConnections_def globalEntries_def)
qed

lemma getConnectionsFromGlobalConfig_gt1:
  assumes "this_workspaceConfig w = Some wc"
    and "1 < length (globalEntries (workspaceGuid wc) w)"
  shows "getConnectionsFromGlobalConfig validate w = Throw (Error corruption_message)"
proof -
  from assms(2) obtain e1 e2 es where "globalEntries (workspaceGuid wc) w = e1 # e2 # es"
    by (cases "globalEntries (workspaceGuid wc) w" rule: list.exhaust)
       (auto simp: neq_Nil_conv)
  with assms(1) show ?thesis
    by (simp add: getConnectionsFromGlobalConfig_def CurrentUserWorkspaceConfiguration_def
        globalEntries_def)
qed

lemma ensureWorkspaceGuid_Some:
  assumes "this_workspaceConfig w = Some wc"
  shows "\<exists>w'. ensureWorkspaceGuid newGuid w = Some (Normal (), w')
     \<and> this_workspaceConfig w' = Some (wc\<lparr>workspaceGuid := effectiveGuid newGuid wc\<rparr>)
     \<and> this_initialized w' = this_initialized w
     \<and> this_connections w' = this_connections w
     \<and> this_activeConnection w' = this_activeConnection w
     \<and> config w' = config w \<and> pending w' = pending w
     \<and> api_initialize w' = api_initialize w \<and> shown_errors w' = shown_errors w"
  using assms
  by (cases "workspaceGuid wc") (auto simp: ensureWorkspaceGuid_def effectiveGuid_def)

lemma loadConnections_upto_global:
  assumes cfg: "databricks_workspaceConfiguration (config w) = Some wc"
  shows "\<exists>w9 msg. loadConnections validate newGuid w =
       (case getConnectionsFromGlobalConfig validate w9 of
          Throw e \<Rightarrow> Some (Throw e, w9)
        | Normal G \<Rightarrow>
            updateUserWorkspaceConfig
              ((mergeConnections (getDefaultConnectionFromWorkspace validate w) G (log (msg G) w9))
                 \<lparr>this_initialized := True\<rparr>))
     \<and> this_workspaceConfig w9 = Some (wc\<lparr>workspaceGuid := effectiveGuid newGuid wc\<rparr>)
     \<and> this_connections w9 = getConnectionsFromWorkspace validate w
     \<and> this_activeConnection w9 = this_activeConnection w
     \<and> config w9 = config w \<and> pending w9 = pending w
     \<and> api_initialize w9 = api_initialize w \<and> shown_errors w9 = shown_errors w"
proof -
  define w2 where "w2 = (log ''Getting current Workspace Configuration (databricks.workspaceConfiguration) ...'' w)
      \<lparr>this_workspaceConfig := databricks_workspaceConfiguration
         (config (log ''Getting current Workspace Configuration (databricks.workspaceConfiguration) ...'' w))\<rparr>"
  have "this_workspaceConfig w2 = Some wc" by (simp add: w2_def cfg)
  from ensureWorkspaceGuid_Some [OF this, of newGuid]
  obtain w3 where e: "ensureWorkspaceGuid newGuid w2 = Some (Normal (), w3)"
    and w3: "this_workspaceConfig w3 = Some (wc\<lparr>workspaceGuid := effectiveGuid newGuid wc\<rparr>)"
      "this_activeConnection w3 = this_activeConnection w2"
      "config w3 = config w2" "pending w3 = pending w2"
      "api_initialize w3 = api_initialize w2" "shown_errors w3 = shown_errors w2"
    by blast
  define w4 where "w4 = log ''Loading connections array from Workspace (databricks.connections)...'' w3"
  define w5 where "w5 = w4\<lparr>this_connections := getConnectionsFromWorkspace validate w4\<rparr>"
  define w6 where "w6 = log (string_of_nat (length (this_connections w5))
                           @ '' connection(s) loaded from Workspace!'') w5"
  define w7 where "w7 = log ''Loading default connection from Workspace/UserSettings (databricks.connection.default.*) ...'' w6"
  define d where "d = getDefaultConnectionFromWorkspace validate w7"
  define w8 where "w8 = (if d \<noteq> None
                     then log ''Default connection loaded from Workspace/UserSettings!'' w7
                     else log ''No Default connection found in Workspace/UserSettings!'' w7)"
  define w9 where "w9 = log ''Loading connections array from UserSetting (databricks.userWorkspaceConfigurations)...'' w8"
  define msg where "msg = (\<lambda>G :: DatabricksConnection list.
     string_of_nat (length G) @ '' connection(s) loaded from UserSetting!'')"
  have cf: "config w7 = config w" "config w4 = config w"
    by (simp_all add: w7_def w6_def w5_def w4_def w3 w2_def)
  have d: "d = getDefaultConnectionFromWorkspace validate w"
    unfolding d_def by (rule getDefaultConnectionFromWorkspace_cong) (rule cf)
  have l1: "getConnectionsFromWorkspace validate w4 = getConnectionsFromWorkspace validate w"
    by (rule getConnectionsFromWorkspace_cong) (rule cf)
  have "loadConnections validate newGuid w =
       (case getConnectionsFromGlobalConfig validate w9 of
          Throw e \<Rightarrow> Some (Throw e, w9)
        | Normal G \<Rightarrow>
            updateUserWorkspaceConfig
              ((mergeConnections d G (log (msg G) w9))\<lparr>this_initialized := True\<rparr>))"
    by (simp only: loadConnections_def Let_def e [unfolded w2_def] andThen_def
        option.case prod.case completion.case
        w9_def w8_def d_def w7_def w6_def w5_def w4_def msg_def)
  moreover have "this_workspaceConfig w9 = Some (wc\<lparr>workspaceGuid := effectiveGuid newGuid wc\<rparr>)"
    by (simp add: w9_def w8_def w7_def w6_def w5_def w4_def w3)
  moreover have "this_connections w9 = getConnectionsFromWorkspace validate w"
    by (simp add: w9_def w8_def w7_def w6_def w5_def l1)
  moreover have "this_activeConnection w9 = this_activeConnection w"
    "config w9 = config w" "pending w9 = pending w"
    "api_initialize w9 = api_initialize w" "shown_errors w9 = shown_errors w"
    by (simp_all add: w9_def w8_def w7_def w6_def w5_def w4_def w3 w2_def)
  ultimately show ?thesis unfolding d by blast
qed


lemma loadConnections_result:
  assumes cfg: "databricks_workspaceConfiguration (config w) = Some wc"
    and le1: "length (globalEntries (effectiveGuid newGuid wc) w) \<le> 1"
  shows "\<exists>w'. loadConnections validate newGuid w = Some (Normal (), w')
     \<and> this_connections w' = canonical validate (effectiveGuid newGuid wc) w
     \<and> this_initialized w'
     \<and> this_workspaceConfig w' = Some (wc\<lparr>workspaceGuid := effectiveGuid newGuid wc\<rparr>)
     \<and> this_activeConnection w' = this_activeConnection w
     \<and> api_initialize w' = api_initialize w
     \<and> shown_errors w' = shown_errors w
     \<and> config w' = config w
     \<and> pending w' = pending w
          @ Pending (Set_userWorkspaceConfigurations
               (otherEntries (effectiveGuid newGuid wc) w
                  @ [\<lparr>workspaceConfig = wc\<lparr>workspaceGuid := effectiveGuid newGuid wc\<rparr>,
                      connections = canonical validate (effectiveGuid newGuid wc) w\<rparr>]))
               (Some updated_message)
          # clearingWrites"
proof -
  define g where "g = effectiveGuid newGuid wc"
  define wc' where "wc' = wc\<lparr>workspaceGuid := g\<rparr>"
  define D where "D = getDefaultConnectionFromWorkspace validate w"
  from loadConnections_upto_global [OF cfg, of validate newGuid]
  obtain w9 msg where eq: "loadConnections validate newGuid w =
       (case getConnectionsFromGlobalConfig validate w9 of
          Throw e \<Rightarrow> Some (Throw e, w9)
        | Normal G \<Rightarrow>
            updateUserWorkspaceConfig
              ((mergeConnections D G (log (msg G) w9))\<lparr>this_initialized := True\<rparr>))"
    and w9: "this_workspaceConfig w9 = Some wc'"
      "this_connections w9 = getConnectionsFromWorkspace validate w"
      "this_activeConnection w9 = this_activeConnection w"
      "config w9 = config w" "pending w9 = pending w"
      "api_initialize w9 = api_initialize w" "shown_errors w9 = shown_errors w"
    unfolding g_def wc'_def D_def by blast
  have guid: "workspaceGuid wc' = g" by (simp add: wc'_def)
  have "length (globalEntries (workspaceGuid wc') w9) \<le> 1"
    using le1 globalEntries_cong [OF w9(4)] by (simp add: guid g_def)
  from getConnectionsFromGlobalConfig_le1 [OF w9(1) this, of validate]
  have G: "getConnectionsFromGlobalConfig validate w9 = Normal (globalConnections validate g w)"
    using globalConnections_cong [OF w9(4)] by (simp add: guid)
  define w12 where "w12 = (mergeConnections D (globalConnections validate g w)
      (log (msg (globalConnections validate g w)) w9))\<lparr>this_initialized := True\<rparr>"
  have eq': "loadConnections validate newGuid w = updateUserWorkspaceConfig w12"
    by (simp add: eq G w12_def)
  have c12: "this_connections w12 = canonical validate g w"
    by (simp add: w12_def mergeConnections_connections w9 canonical_def Let_def D_def image_Un)
  have w12: "this_initialized w12" "this_workspaceConfig w12 = Some wc'"
    "this_activeConnection w12 = this_activeConnection w" "config w12 = config w"
    "pending w12 = pending w" "api_initialize w12 = api_initialize w"
    "shown_errors w12 = shown_errors w"
    by (simp_all add: w12_def mergeConnections_others w9)
  from updateUserWorkspaceConfig_result [OF w12(1) w12(2)]
  show ?thesis
    unfolding eq' c12 w12 guid otherEntries_cong [OF w12(4)] g_def [symmetric] wc'_def [symmetric]
    by blast
qed

lemma loadConnections_corrupt:
  assumes cfg: "databricks_workspaceConfiguration (config w) = Some wc"
    and gt1: "1 < length (globalEntries (effectiveGuid newGuid wc) w)"
  shows "\<exists>w'. loadConnections validate newGuid w = Some (Throw (Error corruption_message), w')
     \<and> config w' = config w \<and> pending w' = pending w
     \<and> this_activeConnection w' = this_activeConnection w"
proof -
  from loadConnections_upto_global [OF cfg, of validate newGuid]
  obtain w9 msg where eq: "loadConnections validate newGuid w =
       (case getConnectionsFromGlobalConfig validate w9 of
          Throw e \<Rightarrow> Some (Throw e, w9)
        | Normal G \<Rightarrow>
            updateUserWorkspaceConfig
              ((mergeConnections (getDefaultConnectionFromWorkspace validate w) G
                  (log (msg G) w9))\<lparr>this_initialized := True\<rparr>))"
    and w9: "this_workspaceConfig w9 = Some (wc\<lparr>workspaceGuid := effectiveGuid newGuid wc\<rparr>)"
      "this_activeConnection w9 = this_activeConnection w"
      "config w9 = config w" "pending w9 = pending w"
    by blast
  have "1 < length (globalEntries
      (workspaceGuid (wc\<lparr>workspaceGuid := effectiveGuid newGuid wc\<rparr>)) w9)"
    using gt1 globalEntries_cong [OF w9(3)] by simp
  from getConnectionsFromGlobalConfig_gt1 [OF w9(1) this, of validate]
  show ?thesis using w9 by (simp add: eq)
qed

section \<open>Lemmas on the merged list and on the concrete inputs\<close>

lemma connectionsAfter_Normal [simp]:
  "connectionsAfter (Some (Normal a, w)) = Some (this_connections w)"
  by (simp add: connectionsAfter_def)

lemma distinct_names_filter:
  "distinct (map displayName xs) \<Longrightarrow> distinct (map displayName (filter P xs))"
  by (induction xs) auto

lemma defaultIfNew_names:
  "distinct (map displayName L1) \<Longrightarrow> distinct (map displayName (L1 @ defaultIfNew D L1))"
  by (cases D) (auto simp: defaultIfNew_def)

lemma example_names [simp]:
  "displayName conA = Some ''A''" "displayName conA_other = Some ''A''"
  "displayName conA_global = Some ''A''" "displayName conB = Some ''B''"
  "displayName conC = Some ''C''"
  by (simp_all add: conA_def conA_other_def conA_global_def conB_def conC_def mkConnection_def)

lemma example_valid [simp]:
  "validate_spec conA" "validate_spec conA_other" "validate_spec conA_global"
  "validate_spec conB" "validate_spec conC"
  by (simp_all add: validate_spec_def conA_def conA_other_def conA_global_def conB_def conC_def
      mkConnection_def)

lemma threeSources_sources:
  "databricks_workspaceConfiguration (config (freshWorld threeSources)) = Some wcGuid"
  "effectiveGuid g wcGuid = Some ''guid-1''"
  "globalEntries (Some ''guid-1'') (freshWorld threeSources)
     = [\<lparr>workspaceConfig = wcGuid, connections = [conA_global, conC]\<rparr>]"
  "getConnectionsFromWorkspace validate_spec (freshWorld threeSources) = [conA]"
  "getDefaultConnectionFromWorkspace validate_spec (freshWorld threeSources) = Some conB"
  "globalConnections validate_spec (Some ''guid-1'') (freshWorld threeSources) = [conA_global, conC]"
  by (simp_all add: freshWorld_def threeSources_def emptyConfig_def wcGuid_def effectiveGuid_def
      globalEntries_def globalConnections_def getConnectionsFromWorkspace_def
      getDefaultConnectionFromWorkspace_def validate_spec_def conA_def conA_global_def conB_def
      conC_def mkConnection_def)

lemma thrownBy_Throw [simp]: "thrownBy (Some (Throw e, w)) = Some e"
  by (simp add: thrownBy_def)

lemma canonical_unfold:
  "canonical validate g w
     = (getConnectionsFromWorkspace validate w
         @ defaultIfNew (getDefaultConnectionFromWorkspace validate w)
             (getConnectionsFromWorkspace validate w))
       @ filter (\<lambda>x. displayName x \<notin> set (map displayName
             (getConnectionsFromWorkspace validate w
               @ defaultIfNew (getDefaultConnectionFromWorkspace validate w)
                   (getConnectionsFromWorkspace validate w))))
           (globalConnections validate g w)"
  by (simp only: canonical_def Let_def)

lemma loadConnections_no_record:
  assumes "databricks_workspaceConfiguration (config w) = None"
  shows "\<exists>w'. loadConnections validate newGuid w = Some (Throw TypeError, w')"
proof -
  define w2 where "w2 = (log ''Getting current Workspace Configuration (databricks.workspaceConfiguration) ...'' w)
      \<lparr>this_workspaceConfig := databricks_workspaceConfiguration
         (config (log ''Getting current Workspace Configuration (databricks.workspaceConfiguration) ...'' w))\<rparr>"
  have e: "ensureWorkspaceGuid newGuid w2
      = Some (Throw TypeError, log ''Creating Workspace Configuration ...'' w2)"
    by (simp add: ensureWorkspaceGuid_def w2_def assms)
  have "loadConnections validate newGuid w
      = Some (Throw TypeError, log ''Creating Workspace Configuration ...'' w2)"
    by (simp only: loadConnections_def Let_def e [unfolded w2_def] andThen_def
        option.case prod.case completion.case w2_def)
  then show ?thesis by blast
qed

section \<open>Activation\<close>

lemma get_Connections_initialized:
  "this_initialized w \<Longrightarrow> get_Connections w = Some (Normal (this_connections w), w)"
  by (simp add: get_Connections_def Connections_initialized)

lemma settle_all_append:
  "settle_all accept (ps @ qs) w = settle_all accept qs (settle_all accept ps w)"
  by (induction ps arbitrary: w) simp_all

lemma activateConnection_body_unique:
  assumes "this_initialized w" and "this_workspaceConfig w = Some wc"
    and "filter (\<lambda>x. displayName x = n) (this_connections w) = [c]"
  shows "\<exists>w'. activateConnection_body n w = Some (Normal c, w')
     \<and> this_initialized w' \<and> this_connections w' = this_connections w
     \<and> this_activeConnection w' = Some c
     \<and> this_workspaceConfig w' = Some (wc\<lparr>lastActiveConnection := n\<rparr>)
     \<and> api_initialize w' = api_initialize w @ [Some c]
     \<and> config w' = config w
     \<and> pending w' = pending w
          @ [Pending (Set_workspaceConfiguration (Some (wc\<lparr>lastActiveConnection := n\<rparr>))) None,
             Pending (Set_codeRegularExpression
               (if useCodeCells c = Some True then Some codeRegularExpression else None)) None]"
  using assms
  by (simp add: activateConnection_body_def andThen_def get_Connections_initialized
      DatabricksApiService_initialize_def updateWorkspaceConfig_def issue_def)

lemma activateConnection_body_not_unique:
  assumes "this_initialized w"
    and "length (filter (\<lambda>x. displayName x = n) (this_connections w)) \<noteq> 1"
  shows "activateConnection_body n w
     = Some (Throw (Error (not_found_message n)), log (not_found_message n) w)"
proof (cases "filter (\<lambda>x. displayName x = n) (this_connections w)")
  case Nil
  with assms(1) show ?thesis
    by (simp add: activateConnection_body_def andThen_def get_Connections_initialized Let_def)
next
  case (Cons x xs)
  with assms(2) obtain y ys where "xs = y # ys" by (cases xs) auto
  with Cons assms(1) show ?thesis
    by (simp add: activateConnection_body_def andThen_def get_Connections_initialized Let_def)
qed

section \<open>The merge of the three sources\<close>

text \<open>
  C1, as the code has it. Let \<open>L1\<close> be the valid entries of the workspace list, \<open>D\<close> the
  default connection and \<open>L3\<close> the valid connections of the global entry of this workspace.
  When the workspace configuration is present and at most one global entry has its guid,
  \<^verbatim>\<open>loadConnections\<close> returns, and its list is all of \<open>L1\<close> in source order, then \<open>D\<close> if
  its name is not in \<open>L1\<close>, then the records of \<open>L3\<close>, in source order, whose name is in
  neither. No two of its records have the same displayName provided that no two records
  of \<open>L1\<close> have, and no two of \<open>L3\<close>: the code compares the names of one source with those
  of the sources before it, never among the records of one source.
\<close>

theorem C1_merge_order:
  assumes "databricks_workspaceConfiguration (config w) = Some wc"
    and "length (globalEntries (effectiveGuid newGuid wc) w) \<le> 1"
    and "L1 = getConnectionsFromWorkspace validate w"
    and "D = getDefaultConnectionFromWorkspace validate w"
    and "L3 = globalConnections validate (effectiveGuid newGuid wc) w"
  shows "\<exists>cs. connectionsAfter (loadConnections validate newGuid w) = Some cs
     \<and> cs = L1 @ defaultIfNew D L1
            @ filter (\<lambda>x. displayName x \<notin> set (map displayName (L1 @ defaultIfNew D L1))) L3
     \<and> (distinct (map displayName L1) \<and> distinct (map displayName L3)
          \<longrightarrow> distinct (map displayName cs))"
proof -
  from loadConnections_result [OF assms(1,2), of validate]
  obtain w' where "loadConnections validate newGuid w = Some (Normal (), w')"
    and "this_connections w' = canonical validate (effectiveGuid newGuid wc) w"
    by blast
  then have cs: "connectionsAfter (loadConnections validate newGuid w)
      = Some (L1 @ defaultIfNew D L1
            @ filter (\<lambda>x. displayName x \<notin> set (map displayName (L1 @ defaultIfNew D L1))) L3)"
    by (simp add: canonical_def Let_def assms(3,4,5) image_Un)
  have "distinct (map displayName (L1 @ defaultIfNew D L1
            @ filter (\<lambda>x. displayName x \<notin> set (map displayName (L1 @ defaultIfNew D L1))) L3))"
    if d1: "distinct (map displayName L1)" and d3: "distinct (map displayName L3)"
  proof -
    let ?LD = "L1 @ defaultIfNew D L1"
    have "distinct (map displayName ?LD)" using d1 by (rule defaultIfNew_names)
    moreover have "distinct (map displayName
        (filter (\<lambda>x. displayName x \<notin> set (map displayName ?LD)) L3))"
      using d3 by (rule distinct_names_filter)
    moreover have "set (map displayName ?LD)
        \<inter> set (map displayName (filter (\<lambda>x. displayName x \<notin> set (map displayName ?LD)) L3)) = {}"
      by auto
    ultimately have "distinct (map displayName ?LD
        @ map displayName (filter (\<lambda>x. displayName x \<notin> set (map displayName ?LD)) L3))"
      by (simp only: distinct_append simp_thms)
    then show ?thesis by simp
  qed
  with cs show ?thesis by blast
qed

text \<open>
  C1, witness: the workspace list holds \<open>A\<close>, the default block \<open>B\<close>, and the global entry
  another \<open>A\<close> and \<open>C\<close>.
\<close>

theorem C1_merge_order_witness:
  "connectionsAfter (loadConnections validate_spec ''guid-9'' (freshWorld threeSources))
     = Some [conA, conB, conC]
   \<and> distinct (map displayName [conA, conB, conC])"
proof -
  have h: "databricks_workspaceConfiguration (config (freshWorld threeSources)) = Some wcGuid"
    "length (globalEntries (effectiveGuid ''guid-9'' wcGuid) (freshWorld threeSources)) \<le> 1"
    "[conA] = getConnectionsFromWorkspace validate_spec (freshWorld threeSources)"
    "Some conB = getDefaultConnectionFromWorkspace validate_spec (freshWorld threeSources)"
    "[conA_global, conC]
       = globalConnections validate_spec (effectiveGuid ''guid-9'' wcGuid) (freshWorld threeSources)"
    by (simp_all add: threeSources_sources)
  have f: "[conA] @ defaultIfNew (Some conB) [conA]
      @ filter (\<lambda>x. displayName x \<notin> set (map displayName ([conA] @ defaultIfNew (Some conB) [conA])))
          [conA_global, conC] = [conA, conB, conC]"
    by (simp add: defaultIfNew_def)
  from C1_merge_order [OF h] show ?thesis
    unfolding f by simp
qed

text \<open>
  C1, counterexample to the claim as stated: two different valid records of the workspace
  list have the same displayName, and both are in the list that \<^verbatim>\<open>loadConnections\<close>
  produces.
\<close>

theorem C1_counterexample:
  "connectionsAfter (loadConnections validate_spec ''guid-9'' (freshWorld sameNameTwice))
     = Some [conA, conA_other]
   \<and> conA \<noteq> conA_other \<and> validate_spec conA \<and> validate_spec conA_other
   \<and> \<not> distinct (map displayName [conA, conA_other])"
proof -
  have "databricks_workspaceConfiguration (config (freshWorld sameNameTwice)) = Some wcGuid"
    and "length (globalEntries (effectiveGuid ''guid-9'' wcGuid) (freshWorld sameNameTwice)) \<le> 1"
    by (simp_all add: freshWorld_def sameNameTwice_def emptyConfig_def globalEntries_def)
  from loadConnections_result [OF this, of validate_spec]
  have "connectionsAfter (loadConnections validate_spec ''guid-9'' (freshWorld sameNameTwice))
      = Some (canonical validate_spec (effectiveGuid ''guid-9'' wcGuid) (freshWorld sameNameTwice))"
    by auto
  moreover have "canonical validate_spec (effectiveGuid ''guid-9'' wcGuid) (freshWorld sameNameTwice)
      = [conA, conA_other]"
    by (simp add: canonical_def freshWorld_def sameNameTwice_def emptyConfig_def globalEntries_def
        globalConnections_def getConnectionsFromWorkspace_def defaultIfNew_def
        getDefaultConnectionFromWorkspace_def)
  moreover have "conA \<noteq> conA_other"
    by (simp add: conA_def conA_other_def mkConnection_def)
  ultimately show ?thesis by simp
qed

text \<open>
  C2. When the workspace configuration is present and at most one global entry has its
  guid, the records named \<open>n\<close> in the list that \<^verbatim>\<open>loadConnections\<close> produces are, for every
  name \<open>n\<close> of a valid record of the workspace list \<open>L1\<close>, exactly the records of \<open>L1\<close>
  named \<open>n\<close>: whatever the global entry holds under that name is not in the list, whole or
  in part.
\<close>

theorem C2_local_record_wins:
  assumes "databricks_workspaceConfiguration (config w) = Some wc"
    and "length (globalEntries (effectiveGuid newGuid wc) w) \<le> 1"
    and "n \<in> set (map displayName (getConnectionsFromWorkspace validate w))"
  shows "\<exists>cs. connectionsAfter (loadConnections validate newGuid w) = Some cs
     \<and> filter (\<lambda>c. displayName c = n) cs
         = filter (\<lambda>c. displayName c = n) (getConnectionsFromWorkspace validate w)"
proof -
  define L1 where "L1 = getConnectionsFromWorkspace validate w"
  define LD where "LD = L1 @ defaultIfNew (getDefaultConnectionFromWorkspace validate w) L1"
  define L3 where "L3 = globalConnections validate (effectiveGuid newGuid wc) w"
  from loadConnections_result [OF assms(1,2), of validate]
  obtain w' where l: "loadConnections validate newGuid w = Some (Normal (), w')"
    and c: "this_connections w' = canonical validate (effectiveGuid newGuid wc) w"
    by blast
  have cs: "connectionsAfter (loadConnections validate newGuid w)
      = Some (LD @ filter (\<lambda>x. displayName x \<notin> set (map displayName LD)) L3)"
    by (simp only: l connectionsAfter_Normal c canonical_unfold L1_def LD_def L3_def)
  have n: "n \<in> set (map displayName L1)" using assms(3) by (simp add: L1_def)
  have "filter (\<lambda>c. displayName c = n)
      (defaultIfNew (getDefaultConnectionFromWorkspace validate w) L1) = []"
    using n by (cases "getDefaultConnectionFromWorkspace validate w") (auto simp: defaultIfNew_def)
  then have ld: "filter (\<lambda>c. displayName c = n) LD = filter (\<lambda>c. displayName c = n) L1"
    by (simp add: LD_def)
  have "n \<in> set (map displayName LD)" using n by (simp add: LD_def)
  then have "filter (\<lambda>c. displayName c = n)
      (filter (\<lambda>x. displayName x \<notin> set (map displayName LD)) L3) = []"
    by (auto simp: filter_empty_conv)
  with ld have "filter (\<lambda>c. displayName c = n)
      (LD @ filter (\<lambda>x. displayName x \<notin> set (map displayName LD)) L3)
      = filter (\<lambda>c. displayName c = n) L1"
    by simp
  with cs show ?thesis unfolding L1_def by blast
qed

text \<open>
  C2, witness: the workspace list and the global entry both hold a record named \<open>A\<close>, with
  different urls; the list has the one of the workspace list.
\<close>

theorem C2_local_record_wins_witness:
  "(\<exists>cs. connectionsAfter (loadConnections validate_spec ''guid-9'' (freshWorld threeSources)) = Some cs
      \<and> filter (\<lambda>c. displayName c = Some ''A'') cs = [conA])
   \<and> conA_global \<in> set (globalConnections validate_spec (Some ''guid-1'') (freshWorld threeSources))
   \<and> displayName conA_global = Some ''A'' \<and> conA_global \<noteq> conA"
proof -
  have h: "databricks_workspaceConfiguration (config (freshWorld threeSources)) = Some wcGuid"
    "length (globalEntries (effectiveGuid ''guid-9'' wcGuid) (freshWorld threeSources)) \<le> 1"
    "Some ''A'' \<in> set (map displayName
       (getConnectionsFromWorkspace validate_spec (freshWorld threeSources)))"
    by (simp_all add: threeSources_sources)
  have "conA_global \<noteq> conA" by (simp add: conA_def conA_global_def mkConnection_def)
  with C2_local_record_wins [OF h] show ?thesis
    by (simp add: threeSources_sources)
qed

section \<open>The global entry of the workspace\<close>

text \<open>
  C5. With the workspace configuration present: when no global entry has the guid of this
  workspace, \<^verbatim>\<open>loadConnections\<close> returns normally and its list is that of the workspace
  sources alone; when more than one entry has it, \<^verbatim>\<open>loadConnections\<close> throws the error of
  \<open>corruption_message\<close>, the settings are what they were and no write has been issued.
\<close>

theorem C5_global_entry_selection:
  assumes "databricks_workspaceConfiguration (config w) = Some wc"
  shows "(globalEntries (effectiveGuid newGuid wc) w = [] \<longrightarrow>
            (\<exists>w'. loadConnections validate newGuid w = Some (Normal (), w')
               \<and> this_connections w'
                   = getConnectionsFromWorkspace validate w
                     @ defaultIfNew (getDefaultConnectionFromWorkspace validate w)
                         (getConnectionsFromWorkspace validate w)))
     \<and> (1 < length (globalEntries (effectiveGuid newGuid wc) w) \<longrightarrow>
            (\<exists>w'. loadConnections validate newGuid w = Some (Throw (Error corruption_message), w')
               \<and> config w' = config w \<and> pending w' = pending w))"
proof (intro conjI impI)
  assume e: "globalEntries (effectiveGuid newGuid wc) w = []"
  then have "length (globalEntries (effectiveGuid newGuid wc) w) \<le> 1" by simp
  from loadConnections_result [OF assms this, of validate]
  obtain w' where "loadConnections validate newGuid w = Some (Normal (), w')"
    and "this_connections w' = canonical validate (effectiveGuid newGuid wc) w"
    by blast
  moreover have "canonical validate (effectiveGuid newGuid wc) w
      = getConnectionsFromWorkspace validate w
        @ defaultIfNew (getDefaultConnectionFromWorkspace validate w)
            (getConnectionsFromWorkspace validate w)"
    using e by (simp add: canonical_def globalConnections_def Let_def)
  ultimately show "\<exists>w'. loadConnections validate newGuid w = Some (Normal (), w')
      \<and> this_connections w'
          = getConnectionsFromWorkspace validate w
            @ defaultIfNew (getDefaultConnectionFromWorkspace validate w)
                (getConnectionsFromWorkspace validate w)"
    by simp
next
  assume "1 < length (globalEntries (effectiveGuid newGuid wc) w)"
  from loadConnections_corrupt [OF assms this, of validate]
  show "\<exists>w'. loadConnections validate newGuid w = Some (Throw (Error corruption_message), w')
      \<and> config w' = config w \<and> pending w' = pending w"
    by blast
qed

text \<open>
  C5, witness: settings with no global entry, and settings with two global entries of the
  guid of this workspace.
\<close>

theorem C5_global_entry_selection_witness:
  "connectionsAfter (loadConnections validate_spec ''guid-9'' (freshWorld localOnly)) = Some [conA]
   \<and> thrownBy (loadConnections validate_spec ''guid-9'' (freshWorld duplicateGuid))
       = Some (Error corruption_message)
   \<and> length (globalEntries (Some ''guid-1'') (freshWorld duplicateGuid)) = 2"
proof -
  have a: "databricks_workspaceConfiguration (config (freshWorld localOnly)) = Some wcGuid"
    and a0: "globalEntries (effectiveGuid ''guid-9'' wcGuid) (freshWorld localOnly) = []"
    and a1: "getConnectionsFromWorkspace validate_spec (freshWorld localOnly) = [conA]"
    and a2: "getDefaultConnectionFromWorkspace validate_spec (freshWorld localOnly) = None"
    by (simp_all add: freshWorld_def localOnly_def emptyConfig_def globalEntries_def
        getConnectionsFromWorkspace_def getDefaultConnectionFromWorkspace_def)
  have b: "databricks_workspaceConfiguration (config (freshWorld duplicateGuid)) = Some wcGuid"
    and b2: "length (globalEntries (effectiveGuid ''guid-9'' wcGuid) (freshWorld duplicateGuid)) = 2"
    and b3: "length (globalEntries (Some ''guid-1'') (freshWorld duplicateGuid)) = 2"
    by (simp_all add: freshWorld_def duplicateGuid_def localOnly_def emptyConfig_def
        globalEntries_def effectiveGuid_def wcGuid_def)
  from C5_global_entry_selection [OF a, of "''guid-9''" validate_spec] a0 a1 a2
  have "connectionsAfter (loadConnections validate_spec ''guid-9'' (freshWorld localOnly))
      = Some [conA]"
    by (auto simp: defaultIfNew_def)
  moreover from C5_global_entry_selection [OF b, of "''guid-9''" validate_spec] b2
  have "thrownBy (loadConnections validate_spec ''guid-9'' (freshWorld duplicateGuid))
      = Some (Error corruption_message)"
    by auto
  ultimately show ?thesis using b3 by simp
qed

section \<open>The workspace configuration record\<close>

text \<open>
  C6, the code at the failing input: no \<^verbatim>\<open>databricks.workspaceConfiguration\<close> is stored.
  The test \<^verbatim>\<open>this._workspaceConfig == undefined\<close> succeeds and the assignment
  \<^verbatim>\<open>this._workspaceConfig.workspaceGuid = Helper.newGuid()\<close> throws a \<open>TypeError\<close>: the
  load does not complete. (With the record present and its guid unset, the guid is set
  and the load completes: \<open>loadConnections_result\<close>.)
\<close>

theorem C6_absent_record_throws:
  "databricks_workspaceConfiguration (config (freshWorld localOnlyNoRecord)) = None
   \<and> thrownBy (loadConnections validate_spec ''guid-9'' (freshWorld localOnlyNoRecord))
       = Some TypeError"
proof -
  have n: "databricks_workspaceConfiguration (config (freshWorld localOnlyNoRecord)) = None"
    by (simp add: freshWorld_def localOnlyNoRecord_def emptyConfig_def)
  from loadConnections_no_record [OF n, of validate_spec "''guid-9''"] n
  show ?thesis by auto
qed

section \<open>Activating a connection\<close>

text \<open>
  C3. On an initialized manager with its workspace configuration, when exactly one record
  of the list has the displayName \<open>X\<close>, \<^verbatim>\<open>activateConnection(X)\<close> resolves to that record,
  which is the active connection afterwards; \<^verbatim>\<open>lastActiveConnection\<close> is \<open>X\<close>;
  \<^verbatim>\<open>DatabricksApiService.initialize\<close> has received the record; and the write of the
  workspace configuration has been issued, so that the stored configuration has
  \<^verbatim>\<open>lastActiveConnection\<close> \<open>X\<close> once the pending writes have settled, if that write is
  accepted.
\<close>

theorem C3_activate_unique:
  assumes "this_initialized w" and "this_workspaceConfig w = Some wc"
    and "filter (\<lambda>x. displayName x = Some X) (this_connections w) = [c]"
  shows "\<exists>w'. activateConnection (Some X) w = Some (Normal (Resolved c), w')
     \<and> this_activeConnection w' = Some c
     \<and> this_workspaceConfig w' = Some (wc\<lparr>lastActiveConnection := Some X\<rparr>)
     \<and> api_initialize w' = api_initialize w @ [Some c]
     \<and> pending w' = pending w
          @ [Pending (Set_workspaceConfiguration (Some (wc\<lparr>lastActiveConnection := Some X\<rparr>))) None,
             Pending (Set_codeRegularExpression
               (if useCodeCells c = Some True then Some codeRegularExpression else None)) None]
     \<and> (\<forall>accept. accept (Set_workspaceConfiguration (Some (wc\<lparr>lastActiveConnection := Some X\<rparr>)))
           \<longrightarrow> databricks_workspaceConfiguration (config (settle accept w'))
                 = Some (wc\<lparr>lastActiveConnection := Some X\<rparr>))"
proof -
  from activateConnection_body_unique [OF assms]
  obtain w' where b: "activateConnection_body (Some X) w = Some (Normal c, w')"
    and w': "this_activeConnection w' = Some c"
      "this_workspaceConfig w' = Some (wc\<lparr>lastActiveConnection := Some X\<rparr>)"
      "api_initialize w' = api_initialize w @ [Some c]"
      "pending w' = pending w
          @ [Pending (Set_workspaceConfiguration (Some (wc\<lparr>lastActiveConnection := Some X\<rparr>))) None,
             Pending (Set_codeRegularExpression
               (if useCodeCells c = Some True then Some codeRegularExpression else None)) None]"
    by blast
  have a: "activateConnection (Some X) w = Some (Normal (Resolved c), w')"
    by (simp add: activateConnection_def async_def b)
  have "databricks_workspaceConfiguration (config (settle accept w'))
      = Some (wc\<lparr>lastActiveConnection := Some X\<rparr>)"
    if "accept (Set_workspaceConfiguration (Some (wc\<lparr>lastActiveConnection := Some X\<rparr>)))"
    for accept
    using that by (simp add: settle_def w'(4) settle_all_append)
  with a w' show ?thesis by blast
qed

text \<open>C3, witness: activating \<open>B\<close> on a loaded manager that holds \<open>A\<close> and \<open>B\<close>.\<close>

theorem C3_activate_unique_witness:
  "\<exists>w'. activateConnection (Some ''B'') loadedWorld = Some (Normal (Resolved conB), w')
     \<and> this_activeConnection w' = Some conB
     \<and> this_workspaceConfig w' = Some (wcGuid\<lparr>lastActiveConnection := Some ''B''\<rparr>)
     \<and> api_initialize w' = [Some conB]
     \<and> databricks_workspaceConfiguration (config (settle acceptAll w'))
         = Some (wcGuid\<lparr>lastActiveConnection := Some ''B''\<rparr>)"
proof -
  have h: "this_initialized loadedWorld" "this_workspaceConfig loadedWorld = Some wcGuid"
    "filter (\<lambda>x. displayName x = Some ''B'') (this_connections loadedWorld) = [conB]"
    by (simp_all add: loadedWorld_def)
  have "acceptAll (Set_workspaceConfiguration (Some (wcGuid\<lparr>lastActiveConnection := Some ''B''\<rparr>)))"
    by (simp add: acceptAll_def)
  with C3_activate_unique [OF h] show ?thesis
    by (auto simp: loadedWorld_def)
qed

text \<open>
  C4. On an initialized manager, when no record or more than one record of the list has
  the displayName \<open>X\<close>, the body of \<^verbatim>\<open>activateConnection(X)\<close> throws an \<^verbatim>\<open>Error\<close> whose message
  contains \<open>X\<close> (the function is \<^verbatim>\<open>async\<close>: its promise is rejected with that error), and
  the active connection, the workspace configuration in memory, the settings and the
  writes issued are what they were before the call.
\<close>

theorem C4_activate_not_unique:
  assumes "this_initialized w"
    and "length (filter (\<lambda>x. displayName x = Some X) (this_connections w)) \<noteq> 1"
  shows "\<exists>w'. activateConnection_body (Some X) w
         = Some (Throw (Error (not_found_message (Some X))), w')
     \<and> activateConnection (Some X) w
         = Some (Normal (Rejected (Error (not_found_message (Some X)))), w')
     \<and> (\<exists>before after. not_found_message (Some X) = before @ X @ after)
     \<and> this_activeConnection w' = this_activeConnection w
     \<and> this_workspaceConfig w' = this_workspaceConfig w
     \<and> config w' = config w \<and> pending w' = pending w
     \<and> api_initialize w' = api_initialize w"
proof -
  note b = activateConnection_body_not_unique [OF assms]
  have "not_found_message (Some X)
      = (''Connection with name  '' @ [CHR 0x27]) @ X @ (CHR 0x27 # '' could not be found!'')"
    by (simp add: not_found_message_def)
  then have "\<exists>before after. not_found_message (Some X) = before @ X @ after" by blast
  then show ?thesis
    by (simp add: b activateConnection_def async_def)
qed

text \<open>
  C4, witness: a name that no record has, and a name that two records have.
\<close>

theorem C4_activate_not_unique_witness:
  "(\<exists>w'. activateConnection (Some ''Z'') loadedWorld
         = Some (Normal (Rejected (Error (not_found_message (Some ''Z'')))), w')
      \<and> this_activeConnection w' = None
      \<and> this_workspaceConfig w' = Some wcGuid \<and> pending w' = [])
   \<and> (\<exists>w'. activateConnection (Some ''A'') (loadedWorld\<lparr>this_connections := [conA, conA_other]\<rparr>)
         = Some (Normal (Rejected (Error (not_found_message (Some ''A'')))), w')
      \<and> this_activeConnection w' = None)"
proof -
  have z: "this_initialized loadedWorld"
    "length (filter (\<lambda>x. displayName x = Some ''Z'') (this_connections loadedWorld)) \<noteq> 1"
    by (simp_all add: loadedWorld_def)
  have a: "this_initialized (loadedWorld\<lparr>this_connections := [conA, conA_other]\<rparr>)"
    "length (filter (\<lambda>x. displayName x = Some ''A'')
       (this_connections (loadedWorld\<lparr>this_connections := [conA, conA_other]\<rparr>))) \<noteq> 1"
    by (simp_all add: loadedWorld_def)
  from C4_activate_not_unique [OF z] C4_activate_not_unique [OF a]
  show ?thesis by (auto simp: loadedWorld_def)
qed

section \<open>The constructor\<close>

lemma activeAfter_Normal [simp]:
  "activeAfter (Some (Normal a, w)) = Some (this_activeConnection w)"
  by (simp add: activeAfter_def)

lemma tryActivate_never_catches:
  assumes "this_workspaceConfig w = Some wc"
  shows "tryActivate w =
     (case activateConnection_body (lastActiveConnection wc) w of
        None \<Rightarrow> None
      | Some (r, w1) \<Rightarrow> Some (Normal (), w1))"
proof (cases "activateConnection_body (lastActiveConnection wc) w")
  case None
  with assms show ?thesis by (simp add: tryActivate_def activateConnection_def async_def)
next
  case (Some p)
  obtain r w1 where "p = (r, w1)" by (cases p)
  with Some assms show ?thesis
    by (cases r) (simp_all add: tryActivate_def activateConnection_def async_def)
qed

text \<open>
  With no last active connection recorded, the constructor records the name of the first
  connection and activates it.
\<close>

lemma constructor_first_connection:
  "activeAfter (constructor validate_spec ''guid-9'' (freshWorld localOnly)) = Some (Some conA)"
proof -
  define w0 where "w0 = (freshWorld localOnly)\<lparr>this_initialized := False\<rparr>"
  have cfg: "databricks_workspaceConfiguration (config w0) = Some wcGuid"
    and le1: "length (globalEntries (effectiveGuid ''guid-9'' wcGuid) w0) \<le> 1"
    by (simp_all add: w0_def freshWorld_def localOnly_def emptyConfig_def globalEntries_def)
  have can: "canonical validate_spec (effectiveGuid ''guid-9'' wcGuid) w0 = [conA]"
    by (simp add: canonical_def w0_def freshWorld_def localOnly_def
        emptyConfig_def globalEntries_def globalConnections_def getConnectionsFromWorkspace_def
        defaultIfNew_def getDefaultConnectionFromWorkspace_def)
  have wc: "wcGuid\<lparr>workspaceGuid := effectiveGuid ''guid-9'' wcGuid\<rparr> = wcGuid"
    by (simp add: wcGuid_def effectiveGuid_def)
  from loadConnections_result [OF cfg le1, of validate_spec]
  obtain w1 where l: "loadConnections validate_spec ''guid-9'' w0 = Some (Normal (), w1)"
    and w1: "this_connections w1 = [conA]" "this_initialized w1"
      "this_workspaceConfig w1 = Some wcGuid"
    unfolding can wc by auto
  define w3 where "w3 = w1\<lparr>this_workspaceConfig :=
      Some (wcGuid\<lparr>lastActiveConnection := Some ''A''\<rparr>)\<rparr>"
  have w3: "this_initialized w3"
    "this_workspaceConfig w3 = Some (wcGuid\<lparr>lastActiveConnection := Some ''A''\<rparr>)"
    "filter (\<lambda>x. displayName x = Some ''A'') (this_connections w3) = [conA]"
    by (simp_all add: w3_def w1)
  from activateConnection_body_unique [OF w3]
  obtain w4 where "activateConnection_body (Some ''A'') w3 = Some (Normal conA, w4)"
    and "this_activeConnection w4 = Some conA"
    by blast
  then have t: "tryActivate w3 = Some (Normal (), w4)"
    by (simp add: tryActivate_never_catches [OF w3(2)])
  have la: "lastActiveConnection wcGuid = None" by (simp add: wcGuid_def)
  have "constructor validate_spec ''guid-9'' (freshWorld localOnly) = Some (Normal (), w4)"
    by (simp add: constructor_def w0_def [symmetric] l andThen_def
        get_Connections_initialized w1 la w3_def [symmetric] t)
  with \<open>this_activeConnection w4 = Some conA\<close> show ?thesis by simp
qed

text \<open>
  C9, the code at the failing input: the settings record the last active connection
  \<open>gone\<close>, and the only connection is \<open>A\<close>. \<^verbatim>\<open>activateConnection\<close> is \<^verbatim>\<open>async\<close>, so the error
  of its body rejects the promise that the call returns and is not thrown into the
  \<^verbatim>\<open>try\<close> statement of the constructor: the \<^verbatim>\<open>catch\<close> block, with its two log lines and
  the activation of the first connection, does not run (\<open>tryActivate_never_catches\<close>), and
  the construction ends with the list loaded and no active connection.
\<close>

theorem C9_fallback_not_reached:
  "connectionsAfter (constructor validate_spec ''guid-9'' (freshWorld lastActiveGone)) = Some [conA]
   \<and> activeAfter (constructor validate_spec ''guid-9'' (freshWorld lastActiveGone)) = Some None"
proof -
  define w0 where "w0 = (freshWorld lastActiveGone)\<lparr>this_initialized := False\<rparr>"
  have cfg: "databricks_workspaceConfiguration (config w0) = Some wcGone"
    and le1: "length (globalEntries (effectiveGuid ''guid-9'' wcGone) w0) \<le> 1"
    by (simp_all add: w0_def freshWorld_def lastActiveGone_def localOnly_def emptyConfig_def
        globalEntries_def)
  have can: "canonical validate_spec (effectiveGuid ''guid-9'' wcGone) w0 = [conA]"
    by (simp add: canonical_def w0_def freshWorld_def lastActiveGone_def localOnly_def
        emptyConfig_def globalEntries_def globalConnections_def getConnectionsFromWorkspace_def
        defaultIfNew_def getDefaultConnectionFromWorkspace_def)
  have wc: "wcGone\<lparr>workspaceGuid := effectiveGuid ''guid-9'' wcGone\<rparr> = wcGone"
    by (simp add: wcGone_def effectiveGuid_def)
  from loadConnections_result [OF cfg le1, of validate_spec]
  obtain w1 where l: "loadConnections validate_spec ''guid-9'' w0 = Some (Normal (), w1)"
    and w1: "this_connections w1 = [conA]" "this_initialized w1"
      "this_workspaceConfig w1 = Some wcGone" "this_activeConnection w1 = None"
    unfolding can wc by (auto simp: w0_def freshWorld_def)
  have la: "lastActiveConnection wcGone = Some ''gone''" by (simp add: wcGone_def)
  have "length (filter (\<lambda>x. displayName x = Some ''gone'') (this_connections w1)) \<noteq> 1"
    by (simp add: w1)
  from activateConnection_body_not_unique [OF w1(2) this]
  have t: "tryActivate w1 = Some (Normal (), log (not_found_message (Some ''gone'')) w1)"
    by (simp add: tryActivate_never_catches [OF w1(3)] la)
  have "constructor validate_spec ''guid-9'' (freshWorld lastActiveGone)
      = Some (Normal (), log (not_found_message (Some ''gone'')) w1)"
    by (simp add: constructor_def w0_def [symmetric] l andThen_def
        get_Connections_initialized w1 la t)
  then show ?thesis by (simp add: w1)
qed

section \<open>Loading again after the writes have settled\<close>

lemma pendingAfter_Normal [simp]: "pendingAfter (Some (Normal a, w)) = Some (pending w)"
  by (simp add: pendingAfter_def)

lemma canonical_valid: "c \<in> set (canonical validate g w) \<Longrightarrow> validate c"
  by (auto simp: canonical_def Let_def defaultIfNew_def getConnectionsFromWorkspace_def
      getDefaultConnectionFromWorkspace_def globalConnections_def
      split: option.splits if_splits list.splits)

lemma filter_valid_canonical: "filter validate (canonical validate g w) = canonical validate g w"
  by (rule filter_True) (auto dest: canonical_valid)

lemma settle_accepted_load:
  assumes "pending w1 = Pending (Set_userWorkspaceConfigurations X) cb # clearingWrites"
  shows "databricks_workspaceConfiguration (config (settle acceptAll w1))
           = databricks_workspaceConfiguration (config w1)"
    and "databricks_userWorkspaceConfigurations (config (settle acceptAll w1)) = X"
    and "databricks_connections (config (settle acceptAll w1)) = None"
    and "default_displayName (config (settle acceptAll w1)) = None"
    and "pending (settle acceptAll w1) = []"
  using assms
  by (cases cb; simp add: settle_def clearingWrites_def acceptAll_def log_def)+

lemma settle_rejected_load:
  assumes "pending w1 = Pending (Set_userWorkspaceConfigurations X) cb # clearingWrites"
  shows "config (settle rejectGlobal w1)
     = (config w1)
         \<lparr>databricks_connections := None, default_displayName := None,
          default_cloudProvider := None, default_apiRootUrl := None,
          default_personalAccessToken := None, default_localSyncFolder := None,
          default_databricksConnectJars := None, default_pythonInterpreter := None,
          default_port := None, default_organizationId := None,
          default_exportFormats := None, default_useCodeCells := None\<rparr>"
    and "pending (settle rejectGlobal w1) = []"
  using assms by (simp_all add: settle_def clearingWrites_def)

lemma sources_after_clearing:
  assumes "databricks_connections (config w) = None" and "default_displayName (config w) = None"
  shows "getConnectionsFromWorkspace validate w = []"
    and "getDefaultConnectionFromWorkspace validate w = None"
  using assms
  by (simp_all add: getConnectionsFromWorkspace_def getDefaultConnectionFromWorkspace_def)

lemma globalEntries_after_upsert:
  assumes "databricks_userWorkspaceConfigurations (config w2) = otherEntries g w @ [e]"
    and "workspaceGuid (workspaceConfig e) = g"
  shows "globalEntries g w2 = [e]"
  using assms by (simp add: globalEntries_def otherEntries_def)

lemma globalEntries_after_upsert_other:
  assumes "databricks_userWorkspaceConfigurations (config w2) = otherEntries g w @ [e]"
    and "workspaceGuid (workspaceConfig e) = g" and "g' \<noteq> g"
  shows "globalEntries g' w2 = globalEntries g' w"
proof -
  have "filter (\<lambda>x. workspaceGuid (workspaceConfig x) = g')
      (filter (\<lambda>x. workspaceGuid (workspaceConfig x) \<noteq> g) xs)
      = filter (\<lambda>x. workspaceGuid (workspaceConfig x) = g') xs" for xs
    using assms(3) by (induction xs) auto
  with assms show ?thesis by (simp add: globalEntries_def otherEntries_def)
qed

text \<open>
  C7, as the code has it. When the workspace configuration already holds a guid, at most
  one global entry has that guid and no write is pending, \<^verbatim>\<open>loadConnections\<close> returns, and
  once all the writes it has issued are accepted and settled, a second \<^verbatim>\<open>loadConnections\<close>
  returns with the same list: the workspace list and the default block are then empty,
  and the list is the one of the global entry of this workspace. (\<open>reload\<close> is the first
  load, the settling and the second load.)
\<close>

theorem C7_reload_same_list:
  assumes "databricks_workspaceConfiguration (config w) = Some wc"
    and "workspaceGuid wc = Some g"
    and "length (globalEntries (Some g) w) \<le> 1"
    and "pending w = []"
  shows "\<exists>w1. loadConnections validate newGuid1 w = Some (Normal (), w1)
     \<and> connectionsAfter (reload validate newGuid1 newGuid2 acceptAll w) = Some (this_connections w1)
     \<and> getConnectionsFromWorkspace validate (settle acceptAll w1) = []
     \<and> getDefaultConnectionFromWorkspace validate (settle acceptAll w1) = None
     \<and> globalConnections validate (Some g) (settle acceptAll w1) = this_connections w1"
proof -
  define cs where "cs = canonical validate (Some g) w"
  define e where "e = \<lparr>workspaceConfig = wc, connections = cs\<rparr>"
  have eg: "effectiveGuid n wc = Some g" for n
    using assms(2) by (simp add: effectiveGuid_def)
  have wc: "wc\<lparr>workspaceGuid := Some g\<rparr> = wc" using assms(2) by simp
  from loadConnections_result [OF assms(1), of newGuid1 validate] assms(3)
  obtain w1 where l1: "loadConnections validate newGuid1 w = Some (Normal (), w1)"
    and c1: "this_connections w1 = cs"
    and cf1: "config w1 = config w"
    and p1: "pending w1 = Pending (Set_userWorkspaceConfigurations (otherEntries (Some g) w @ [e]))
        (Some updated_message) # clearingWrites"
    unfolding eg wc cs_def e_def assms(4) by auto
  define w2 where "w2 = settle acceptAll w1"
  note s = settle_accepted_load [OF p1, folded w2_def]
  have cfg2: "databricks_workspaceConfiguration (config w2) = Some wc"
    using s(1) by (simp add: cf1 assms(1))
  have ge2: "globalEntries (Some g) w2 = [e]"
    by (rule globalEntries_after_upsert [OF s(2)]) (simp add: e_def assms(2))
  note src = sources_after_clearing [OF s(3) s(4), of validate]
  have gc2: "globalConnections validate (Some g) w2 = cs"
    by (simp add: globalConnections_def ge2 e_def cs_def filter_valid_canonical)
  have can2: "canonical validate (Some g) w2 = cs"
    by (simp add: canonical_unfold src gc2 defaultIfNew_def)
  have "length (globalEntries (effectiveGuid newGuid2 wc) w2) \<le> 1"
    by (simp add: eg ge2)
  from loadConnections_result [OF cfg2 this, of validate]
  obtain w3 where "loadConnections validate newGuid2 w2 = Some (Normal (), w3)"
    and "this_connections w3 = cs"
    unfolding eg can2 by blast
  then have "connectionsAfter (reload validate newGuid1 newGuid2 acceptAll w) = Some cs"
    by (simp add: reload_def l1 w2_def [symmetric])
  with l1 c1 src gc2 show ?thesis unfolding w2_def by simp
qed

text \<open>C7, witness: the settings with three sources, loaded twice.\<close>

theorem C7_reload_same_list_witness:
  "connectionsAfter (loadConnections validate_spec ''guid-8'' (freshWorld threeSources))
     = Some [conA, conB, conC]
   \<and> connectionsAfter (reload validate_spec ''guid-8'' ''guid-9'' acceptAll (freshWorld threeSources))
       = Some [conA, conB, conC]"
proof -
  have h: "databricks_workspaceConfiguration (config (freshWorld threeSources)) = Some wcGuid"
    "workspaceGuid wcGuid = Some ''guid-1''"
    "length (globalEntries (Some ''guid-1'') (freshWorld threeSources)) \<le> 1"
    "pending (freshWorld threeSources) = []"
    by (simp_all add: threeSources_sources) (simp_all add: wcGuid_def freshWorld_def)
  from C7_reload_same_list [OF h, of validate_spec "''guid-8''" "''guid-9''"]
  obtain w1 where l: "loadConnections validate_spec ''guid-8'' (freshWorld threeSources)
      = Some (Normal (), w1)"
    and r: "connectionsAfter (reload validate_spec ''guid-8'' ''guid-9'' acceptAll
      (freshWorld threeSources)) = Some (this_connections w1)"
    by blast
  from loadConnections_result [OF h(1), of "''guid-8''" validate_spec] l
  have "this_connections w1 = canonical validate_spec (Some ''guid-1'') (freshWorld threeSources)"
    by (simp add: threeSources_sources)
  also have "\<dots> = [conA, conB, conC]"
    by (simp add: canonical_unfold threeSources_sources defaultIfNew_def)
  finally show ?thesis using l r by simp
qed

text \<open>
  C7, counterexample to the claim as stated: the workspace configuration holds no guid.
  The first load works with a new guid and stores the list under it in the global
  setting, but \<^verbatim>\<open>loadConnections\<close> does not write the workspace configuration (only
  \<^verbatim>\<open>activateConnection\<close> does); the second load finds no guid again, works with another new
  one, finds no global entry for it and ends with the empty list.
\<close>

theorem C7_counterexample:
  "connectionsAfter (loadConnections validate_spec ''guid-1'' (freshWorld localOnlyNoGuid))
     = Some [conA]
   \<and> connectionsAfter (reload validate_spec ''guid-1'' ''guid-2'' acceptAll
         (freshWorld localOnlyNoGuid)) = Some []"
proof -
  define w where "w = freshWorld localOnlyNoGuid"
  have cfg: "databricks_workspaceConfiguration (config w) = Some wcNoGuid"
    and ge: "globalEntries g w = []" for g
    by (simp_all add: w_def freshWorld_def localOnlyNoGuid_def emptyConfig_def globalEntries_def)
  have eg: "effectiveGuid n wcNoGuid = Some n" for n
    by (simp add: effectiveGuid_def wcNoGuid_def)
  have can: "canonical validate_spec g w = [conA]" for g
    by (simp add: canonical_unfold globalConnections_def ge defaultIfNew_def)
       (simp add: w_def freshWorld_def localOnlyNoGuid_def emptyConfig_def
         getConnectionsFromWorkspace_def getDefaultConnectionFromWorkspace_def)
  have le: "length (globalEntries (effectiveGuid ''guid-1'' wcNoGuid) w) \<le> 1"
    by (simp add: ge)
  have pw: "pending w = []" and oe: "otherEntries g w = []" for g
    by (simp_all add: w_def freshWorld_def localOnlyNoGuid_def emptyConfig_def otherEntries_def)
  from loadConnections_result [OF cfg le, of validate_spec]
  obtain w1 where l1: "loadConnections validate_spec ''guid-1'' w = Some (Normal (), w1)"
    and c1: "this_connections w1 = [conA]"
    and cf1: "config w1 = config w"
    and p1: "pending w1 = Pending (Set_userWorkspaceConfigurations
        (otherEntries (Some ''guid-1'') w
           @ [\<lparr>workspaceConfig = wcNoGuid\<lparr>workspaceGuid := Some ''guid-1''\<rparr>,
               connections = [conA]\<rparr>]))
        (Some updated_message) # clearingWrites"
    unfolding eg can pw by auto
  define w2 where "w2 = settle acceptAll w1"
  note s = settle_accepted_load [OF p1, folded w2_def]
  have cfg2: "databricks_workspaceConfiguration (config w2) = Some wcNoGuid"
    using s(1) by (simp add: cf1 cfg)
  have "globalEntries (Some ''guid-2'') w2 = globalEntries (Some ''guid-2'') w"
    by (rule globalEntries_after_upsert_other [OF s(2)]) simp_all
  then have ge2: "globalEntries (Some ''guid-2'') w2 = []" by (simp add: ge)
  note src = sources_after_clearing [OF s(3) s(4), of validate_spec]
  have can2: "canonical validate_spec (Some ''guid-2'') w2 = []"
    by (simp add: canonical_unfold src globalConnections_def ge2 defaultIfNew_def)
  have "length (globalEntries (effectiveGuid ''guid-2'' wcNoGuid) w2) \<le> 1"
    by (simp add: eg ge2)
  from loadConnections_result [OF cfg2 this, of validate_spec]
  obtain w3 where "loadConnections validate_spec ''guid-2'' w2 = Some (Normal (), w3)"
    and "this_connections w3 = []"
    unfolding eg can2 by blast
  then have "connectionsAfter (reload validate_spec ''guid-1'' ''guid-2'' acceptAll w) = Some []"
    by (simp add: reload_def l1 w2_def [symmetric])
  with l1 c1 show ?thesis unfolding w_def by simp
qed

text \<open>
  C8, the code at the failing input: VS Code rejects the write of the global setting.
  When \<^verbatim>\<open>loadConnections\<close> returns, the write of the global setting and the writes that
  clear the workspace settings are all pending: the latter were issued while the former
  was. Settled with the global write rejected, the settings hold the connection \<open>A\<close>
  nowhere: the workspace list is cleared and the global list is still empty.
\<close>

theorem C8_cleared_without_the_global_write:
  "connectionsAfter (loadConnections validate_spec ''guid-9'' (freshWorld localOnly)) = Some [conA]
   \<and> pendingAfter (loadConnections validate_spec ''guid-9'' (freshWorld localOnly))
       = Some (Pending (Set_userWorkspaceConfigurations
                  [\<lparr>workspaceConfig = wcGuid, connections = [conA]\<rparr>]) (Some updated_message)
               # clearingWrites)
   \<and> loadAndSettle validate_spec ''guid-9'' rejectGlobal (freshWorld localOnly)
       = Some (emptyConfig\<lparr>databricks_workspaceConfiguration := Some wcGuid\<rparr>)"
proof -
  define w where "w = freshWorld localOnly"
  have cfg: "databricks_workspaceConfiguration (config w) = Some wcGuid"
    and ge: "globalEntries g w = []" and oe: "otherEntries g w = []" for g
    by (simp_all add: w_def freshWorld_def localOnly_def emptyConfig_def globalEntries_def
        otherEntries_def)
  have eg: "effectiveGuid n wcGuid = Some ''guid-1''" for n
    by (simp add: effectiveGuid_def wcGuid_def)
  have wc: "wcGuid\<lparr>workspaceGuid := Some ''guid-1''\<rparr> = wcGuid" by (simp add: wcGuid_def)
  have can: "canonical validate_spec g w = [conA]" for g
    by (simp add: canonical_unfold globalConnections_def ge defaultIfNew_def)
       (simp add: w_def freshWorld_def localOnly_def emptyConfig_def
         getConnectionsFromWorkspace_def getDefaultConnectionFromWorkspace_def)
  have le: "length (globalEntries (effectiveGuid ''guid-9'' wcGuid) w) \<le> 1"
    by (simp add: ge)
  have pw: "pending w = []" by (simp add: w_def freshWorld_def)
  from loadConnections_result [OF cfg le, of validate_spec]
  obtain w1 where l1: "loadConnections validate_spec ''guid-9'' w = Some (Normal (), w1)"
    and c1: "this_connections w1 = [conA]"
    and cf1: "config w1 = config w"
    and p1: "pending w1 = Pending (Set_userWorkspaceConfigurations
        [\<lparr>workspaceConfig = wcGuid, connections = [conA]\<rparr>])
        (Some updated_message) # clearingWrites"
    unfolding eg can wc pw oe by auto
  have "config (settle rejectGlobal w1)
      = emptyConfig\<lparr>databricks_workspaceConfiguration := Some wcGuid\<rparr>"
    by (simp add: settle_rejected_load(1) [OF p1] cf1 w_def freshWorld_def localOnly_def
        emptyConfig_def)
  then have "loadAndSettle validate_spec ''guid-9'' rejectGlobal w
      = Some (emptyConfig\<lparr>databricks_workspaceConfiguration := Some wcGuid\<rparr>)"
    by (simp add: loadAndSettle_def l1)
  with l1 c1 p1 show ?thesis unfolding w_def by simp
qed

section \<open>Deleting a cluster\<close>

text \<open>
  C10, as the code has it: \<^verbatim>\<open>delete\<close> calls \<^verbatim>\<open>DatabricksApiService.deleteCluster\<close>, with
  the id of the cluster, if and only if the confirmation is the name of the cluster and is
  not empty; otherwise it logs the abort message and returns with nothing else done.
\<close>

theorem C10_delete_confirmed:
  "(confirm = Some (name this) \<and> name this \<noteq> [] \<longrightarrow>
      deleteCluster_calls (snd (DatabricksCluster_delete this confirm failure e))
        = deleteCluster_calls e @ [cluster_id this]
      \<and> cluster_logged (snd (DatabricksCluster_delete this confirm failure e)) = cluster_logged e)
   \<and> (\<not> (confirm = Some (name this) \<and> name this \<noteq> []) \<longrightarrow>
      DatabricksCluster_delete this confirm failure e
        = (Resolved (), e\<lparr>cluster_logged := cluster_logged e @ [abort_message this]\<rparr>))"
  by (cases failure) (auto simp: DatabricksCluster_delete_def abort_message_def)

text \<open>
  C10, witness: the name typed in full, a part of it, and the box cancelled.
\<close>

theorem C10_delete_confirmed_witness:
  "deleteCluster_calls (snd (DatabricksCluster_delete namedCluster (Some ''etl'') None noEffects))
     = [''0923-164208-meows279'']
   \<and> DatabricksCluster_delete namedCluster (Some ''et'') None noEffects
       = (Resolved (), noEffects\<lparr>cluster_logged := [abort_message namedCluster]\<rparr>)
   \<and> DatabricksCluster_delete namedCluster None None noEffects
       = (Resolved (), noEffects\<lparr>cluster_logged := [abort_message namedCluster]\<rparr>)"
  using C10_delete_confirmed [of "Some ''etl''" namedCluster None noEffects]
    C10_delete_confirmed [of "Some ''et''" namedCluster None noEffects]
    C10_delete_confirmed [of None namedCluster None noEffects]
  by (simp add: namedCluster_def noEffects_def)

text \<open>
  C10, counterexample to the claim as stated: a cluster whose name is the empty string.
  The confirmation equals the name, and the API is not called.
\<close>

theorem C10_counterexample:
  "Some [] = Some (name unnamedCluster)
   \<and> deleteCluster_calls (snd (DatabricksCluster_delete unnamedCluster (Some []) None noEffects)) = []
   \<and> cluster_logged (snd (DatabricksCluster_delete unnamedCluster (Some []) None noEffects))
       = [abort_message unnamedCluster]"
  by (simp add: DatabricksCluster_delete_def unnamedCluster_def noEffects_def abort_message_def)

end
